theory Spec2Isabelle
  imports Complex_Main "HOL-Library.Sublist" "HOL-Library.Char_ord" "HOL-Library.List_Lexorder"
begin

section \<open>Strings\<close>

text \<open>
  The string methods of Python that \<^verbatim>\<open>NPPIC.py\<close> calls, over ASCII text:
  \<^verbatim>\<open>upper\<close>, \<^verbatim>\<open>strip\<close>, \<^verbatim>\<open>isdigit\<close>, \<^verbatim>\<open>startswith\<close> and the substring test
  \<^verbatim>\<open>sub in s\<close>. Characters outside ASCII are left as they are by \<open>upper\<close> and are
  neither digits nor white space.
\<close>

definition upper_char :: "char \<Rightarrow> char" where
  "upper_char c =
     (case map_of (zip ''abcdefghijklmnopqrstuvwxyz'' ''ABCDEFGHIJKLMNOPQRSTUVWXYZ'') c of
        None \<Rightarrow> c
      | Some u \<Rightarrow> u)"

definition upper :: "string \<Rightarrow> string" where
  "upper s = map upper_char s"

definition is_space :: "char \<Rightarrow> bool" where
  "is_space c = (c \<in> set [CHR '' '', CHR 0x09, CHR 0x0A, CHR 0x0B, CHR 0x0C, CHR 0x0D,
                            CHR 0x1C, CHR 0x1D, CHR 0x1E, CHR 0x1F])"

definition strip :: "string \<Rightarrow> string" where
  "strip s = rev (dropWhile is_space (rev (dropWhile is_space s)))"

definition is_digit :: "char \<Rightarrow> bool" where
  "is_digit c = (c \<in> set ''0123456789'')"

definition isdigit :: "string \<Rightarrow> bool" where
  "isdigit s = (s \<noteq> [] \<and> list_all is_digit s)"

definition startswith :: "string \<Rightarrow> string \<Rightarrow> bool" where
  "startswith s p = prefix p s"

text \<open>\<open>str_in sub s\<close> is Python's \<^verbatim>\<open>sub in s\<close>.\<close>

fun str_in :: "string \<Rightarrow> string \<Rightarrow> bool" where
  "str_in sub [] = (sub = [])"
| "str_in sub (c # cs) = (prefix sub (c # cs) \<or> str_in sub cs)"

section \<open>The raw grid\<close>

text \<open>
  \<^verbatim>\<open>pd.read_excel(file_path, header=None)\<close> gives a grid of untyped cells. The
  program looks at a cell in two ways only: \<^verbatim>\<open>pd.isna(cell)\<close> and \<^verbatim>\<open>str(cell)\<close>.  A cell
  is therefore \<open>None\<close> when \<^verbatim>\<open>pd.isna\<close> holds of it, and \<open>Some s\<close> with \<open>s\<close> its
  \<^verbatim>\<open>str\<close> rendering otherwise (the number 100 read as an integer is \<open>Some ''100''\<close>).
  A grid is the list of its rows.
\<close>

type_synonym cell = "string option"
type_synonym row = "cell list"
type_synonym grid = "row list"

datatype py_error = IndexError | KeyError | ValueError

text \<open>\<^verbatim>\<open>row.iloc[k]\<close> for \<open>k \<ge> 0\<close>: out of range raises \<^verbatim>\<open>IndexError\<close>.\<close>

definition iloc :: "'a list \<Rightarrow> nat \<Rightarrow> py_error + 'a" where
  "iloc xs k = (if k < length xs then Inr (xs ! k) else Inl IndexError)"

section \<open>Header Locator\<close>

text \<open>
  The local variables of the header search of \<^verbatim>\<open>process_excel_file\<close> (lines 105 to 117),
  under their own names.
\<close>

record scan =
  coal_col :: "nat option"
  lignite_col :: "nat option"
  gas_col :: "nat option"
  diesel_col :: "nat option"
  nuclear_col :: "nat option"
  hydro_col :: "nat option"
  res_col :: "nat option"
  total_col :: "nat option"
  state_col :: nat
  sector_col :: "nat option"
  header_rows :: "nat set"

definition init_scan :: scan where
  "init_scan = \<lparr> coal_col = None, lignite_col = None, gas_col = None, diesel_col = None,
                 nuclear_col = None, hydro_col = None, res_col = None, total_col = None,
                 state_col = 1, sector_col = None, header_rows = {} \<rparr>"

text \<open>The label tests of lines 127 to 170, on the upper-cased and stripped text.\<close>

definition is_state_label :: "string \<Rightarrow> bool" where
  "is_state_label cell_str = (cell_str = ''STATE'')"

definition is_sector_label :: "string \<Rightarrow> bool" where
  "is_sector_label cell_str = (str_in ''OWNERSHIP/SECTOR'' cell_str \<or> cell_str = ''SECTOR'')"

definition is_coal_label :: "string \<Rightarrow> bool" where
  "is_coal_label cell_str = (str_in ''COAL'' cell_str \<and> \<not> str_in ''LIGNITE'' cell_str)"

definition is_total_label :: "nat \<Rightarrow> string \<Rightarrow> bool" where
  "is_total_label col_idx cell_str =
     (str_in ''GRAND'' cell_str \<or> (str_in ''TOTAL'' cell_str \<and> col_idx > 8))"

text \<open>
  One pass of the inner loop body (lines 123 to 173) for the cell at row \<open>idx\<close>, column
  \<open>col_idx\<close>. The ten tests are separate \<^verbatim>\<open>if\<close> statements, run in this order.
\<close>

definition scan_cell :: "nat \<Rightarrow> nat \<Rightarrow> cell \<Rightarrow> scan \<Rightarrow> scan" where
  "scan_cell idx col_idx c s =
     (case c of
        None \<Rightarrow> s
      | Some raw \<Rightarrow>
          let cell_str = strip (upper raw);
              s = (if is_state_label cell_str
                   then s\<lparr>state_col := col_idx, header_rows := insert idx (header_rows s)\<rparr>
                   else s);
              s = (if is_sector_label cell_str
                   then s\<lparr>sector_col := Some col_idx, header_rows := insert idx (header_rows s)\<rparr>
                   else s);
              s = (if is_coal_label cell_str \<and> coal_col s = None
                   then s\<lparr>coal_col := Some col_idx, header_rows := insert idx (header_rows s)\<rparr>
                   else s);
              s = (if str_in ''LIGNITE'' cell_str \<and> lignite_col s = None
                   then s\<lparr>lignite_col := Some col_idx, header_rows := insert idx (header_rows s)\<rparr>
                   else s);
              s = (if str_in ''GAS'' cell_str \<and> gas_col s = None
                   then s\<lparr>gas_col := Some col_idx, header_rows := insert idx (header_rows s)\<rparr>
                   else s);
              s = (if str_in ''DIESEL'' cell_str \<and> diesel_col s = None
                   then s\<lparr>diesel_col := Some col_idx, header_rows := insert idx (header_rows s)\<rparr>
                   else s);
              s = (if str_in ''NUCLEAR'' cell_str \<and> nuclear_col s = None
                   then s\<lparr>nuclear_col := Some col_idx, header_rows := insert idx (header_rows s)\<rparr>
                   else s);
              s = (if str_in ''HYDRO'' cell_str \<and> hydro_col s = None
                   then s\<lparr>hydro_col := Some col_idx, header_rows := insert idx (header_rows s)\<rparr>
                   else s);
              s = (if str_in ''RES'' cell_str \<and> res_col s = None
                   then s\<lparr>res_col := Some col_idx, header_rows := insert idx (header_rows s)\<rparr>
                   else s);
              s = (if is_total_label col_idx cell_str \<and> total_col s = None
                   then s\<lparr>total_col := Some col_idx, header_rows := insert idx (header_rows s)\<rparr>
                   else s)
          in s)"

text \<open>
  The two nested loops (lines 120 to 122) visit the cells of the first 15 rows row by row,
  each row from column 0 upwards.
\<close>

definition scan_row :: "nat \<Rightarrow> row \<Rightarrow> scan \<Rightarrow> scan" where
  "scan_row idx r s = fold (\<lambda>(col_idx, c). scan_cell idx col_idx c) (enumerate 0 r) s"

definition locate_headers :: "grid \<Rightarrow> scan" where
  "locate_headers df = fold (\<lambda>(idx, r). scan_row idx r) (enumerate 0 (take 15 df)) init_scan"

text \<open>Line 176: the sector column falls back on the report format.\<close>

definition sector_col_or_default :: "scan \<Rightarrow> nat" where
  "sector_col_or_default s =
     (case sector_col s of
        Some k \<Rightarrow> k
      | None \<Rightarrow> (if lignite_col s = None then 2 else 3))"

text \<open>Line 180: \<^verbatim>\<open>max(header_rows) + 1 if header_rows else 5\<close>.\<close>

definition start_row :: "scan \<Rightarrow> nat" where
  "start_row s = (if header_rows s \<noteq> {} then Max (header_rows s) + 1 else 5)"

section \<open>Record Builder\<close>

text \<open>
  The dictionary appended to \<^verbatim>\<open>result_data\<close> (lines 250 to 264). Capacities are Python
  floats; they are taken here as real numbers, so \<open>+\<close> and \<open>=\<close> are exact and the values
  \<^verbatim>\<open>inf\<close> and \<^verbatim>\<open>nan\<close> do not occur.
\<close>

record capacity_record =
  Date :: "string option"
  Region :: string
  State :: string
  Sector :: string
  Coal :: real
  Lignite :: real
  Gas :: real
  Diesel :: real
  Thermal_Total :: real
  Nuclear :: real
  Hydro :: real
  RES :: real
  Total :: real

text \<open>
  Python's builtin \<^verbatim>\<open>float\<close> on a string is a parameter \<open>pyfloat\<close> of everything that
  parses numbers: \<open>pyfloat s = None\<close> when \<^verbatim>\<open>float(s)\<close> raises, \<open>Some x\<close> when it returns
  \<open>x\<close>.
\<close>

type_synonym float_parser = "string \<Rightarrow> real option"

definition safe_numeric_convert :: "float_parser \<Rightarrow> cell \<Rightarrow> real" where
  "safe_numeric_convert pyfloat v =
     (case v of
        None \<Rightarrow> 0
      | Some s \<Rightarrow>
          let val_str = strip s
          in if val_str \<in> set [''nan'', '''', ''None''] then 0
             else (case pyfloat val_str of Some x \<Rightarrow> x | None \<Rightarrow> 0))"

text \<open>The integer \<^verbatim>\<open>0\<close> that lines 234 to 241 pass for a missing column: its \<^verbatim>\<open>str\<close> is \<^verbatim>\<open>'0'\<close>.\<close>

definition zero_value :: cell where
  "zero_value = Some ''0''"

definition bind_err :: "py_error + 'a \<Rightarrow> ('a \<Rightarrow> py_error + 'b) \<Rightarrow> py_error + 'b" where
  "bind_err m f = (case m of Inl e \<Rightarrow> Inl e | Inr x \<Rightarrow> f x)"

text \<open>
  \<^verbatim>\<open>safe_numeric_convert(row.iloc[c] if c is not None and c < len(row) else 0)\<close>
\<close>

definition extract_value :: "float_parser \<Rightarrow> row \<Rightarrow> nat option \<Rightarrow> py_error + real" where
  "extract_value pyfloat r c =
     (case c of
        None \<Rightarrow> Inr (safe_numeric_convert pyfloat zero_value)
      | Some k \<Rightarrow>
          if k < length r
          then bind_err (iloc r k) (\<lambda>v. Inr (safe_numeric_convert pyfloat v))
          else Inr (safe_numeric_convert pyfloat zero_value))"

definition sector_mapping :: "string \<rightharpoonup> string" where
  "sector_mapping = map_of [(''STATE SECTOR'', ''State''), (''PVT SECTOR'', ''Private''),
                            (''CENTRAL SECTOR'', ''Central'')]"

definition lookup :: "('k \<rightharpoonup> 'v) \<Rightarrow> 'k \<Rightarrow> py_error + 'v" where
  "lookup m k = (case m k of None \<Rightarrow> Inl KeyError | Some v \<Rightarrow> Inr v)"

text \<open>
  The body of the \<^verbatim>\<open>try\<close> of lines 213 to 264 for one sector row; \<open>Inl\<close> is an exception,
  which line 266 catches.
\<close>

definition build_record ::
  "float_parser \<Rightarrow> scan \<Rightarrow> string option \<Rightarrow> string \<Rightarrow> string \<Rightarrow> string \<Rightarrow> row
     \<Rightarrow> py_error + capacity_record" where
  "build_record pyfloat s date region current_state sector r =
     bind_err (extract_value pyfloat r (coal_col s)) (\<lambda>coal.
     bind_err (extract_value pyfloat r (lignite_col s)) (\<lambda>lignite.
     bind_err (extract_value pyfloat r (gas_col s)) (\<lambda>gas.
     bind_err (extract_value pyfloat r (diesel_col s)) (\<lambda>diesel.
     bind_err (extract_value pyfloat r (nuclear_col s)) (\<lambda>nuclear.
     bind_err (extract_value pyfloat r (hydro_col s)) (\<lambda>hydro.
     bind_err (extract_value pyfloat r (res_col s)) (\<lambda>res.
     bind_err (extract_value pyfloat r (total_col s)) (\<lambda>grand_total.
       let thermal_total = coal + lignite + gas + diesel;
           grand_total = (if grand_total = 0 then thermal_total + nuclear + hydro + res
                          else grand_total)
       in bind_err (lookup sector_mapping (upper sector)) (\<lambda>sector_name.
            Inr \<lparr> Date = date, Region = region, State = current_state, Sector = sector_name,
                  Coal = coal, Lignite = lignite, Gas = gas, Diesel = diesel,
                  Thermal_Total = thermal_total, Nuclear = nuclear, Hydro = hydro,
                  RES = res, Total = grand_total \<rparr>)))))))))"

section \<open>Row Classifier\<close>

text \<open>
  Lines 190 and 191: the text of a cell of the row, \<^verbatim>\<open>"nan"\<close> for a missing one.
\<close>

definition cell_text :: "row \<Rightarrow> nat \<Rightarrow> py_error + string" where
  "cell_text r k =
     bind_err (iloc r k) (\<lambda>c. Inr (case c of None \<Rightarrow> ''nan'' | Some s \<Rightarrow> strip s))"

definition region_names_upper :: "string list" where
  "region_names_upper = [''NORTHERN'', ''EASTERN'', ''WESTERN'', ''SOUTHERN'', ''NORTH EASTERN'']"

text \<open>Python's truth value of \<^verbatim>\<open>current_state\<close>: \<^verbatim>\<open>None\<close> and the empty string are false.\<close>

definition truthy :: "string option \<Rightarrow> bool" where
  "truthy cur = (case cur of None \<Rightarrow> False | Some n \<Rightarrow> n \<noteq> [])"

text \<open>
  The loop state is \<^verbatim>\<open>current_state\<close> and \<^verbatim>\<open>result_data\<close>. \<open>classify_row\<close> is one pass of the
  loop body (lines 187 to 267); \<open>sc\<close> is the sector column after the fallback of line 176.
\<close>

type_synonym loop_state = "string option \<times> capacity_record list"

definition classify_row ::
  "float_parser \<Rightarrow> scan \<Rightarrow> nat \<Rightarrow> string option \<Rightarrow> string \<Rightarrow> row \<Rightarrow> loop_state
     \<Rightarrow> py_error + loop_state" where
  "classify_row pyfloat s sc date region r st =
     (case st of (current_state, result_data) \<Rightarrow>
     bind_err (cell_text r (state_col s)) (\<lambda>state_or_number.
     bind_err (cell_text r sc) (\<lambda>sector.
       if state_or_number = ''nan'' \<and> sector = ''nan'' then Inr st
       else if (sector = ''nan'' \<or> sector = '''' \<or> sector = ''None'') \<and>
               (str_in ''Total of'' state_or_number \<or> str_in ''TOTAL OF'' (upper state_or_number))
         then Inr st
       else if (sector = ''nan'' \<or> sector = '''' \<or> sector = ''None'') \<and>
               state_or_number \<noteq> ''nan'' \<and> \<not> isdigit state_or_number
         then (if upper state_or_number \<in> set region_names_upper \<or>
                  startswith state_or_number ''http''
               then Inr (None, result_data)
               else Inr (Some state_or_number, result_data))
       else if truthy current_state \<and>
               upper sector \<in> set [''STATE SECTOR'', ''PVT SECTOR'', ''CENTRAL SECTOR'']
         then (case build_record pyfloat s date region (the current_state) sector r of
                 Inl e \<Rightarrow> Inr st
               | Inr rec \<Rightarrow> Inr (current_state, result_data @ [rec]))
       else Inr st)))"

fun classify_rows ::
  "float_parser \<Rightarrow> scan \<Rightarrow> nat \<Rightarrow> string option \<Rightarrow> string \<Rightarrow> row list \<Rightarrow> loop_state
     \<Rightarrow> py_error + loop_state" where
  "classify_rows pyfloat s sc date region [] st = Inr st"
| "classify_rows pyfloat s sc date region (r # rs) st =
     (case classify_row pyfloat s sc date region r st of
        Inl e \<Rightarrow> Inl e
      | Inr st' \<Rightarrow> classify_rows pyfloat s sc date region rs st')"

text \<open>
  \<^verbatim>\<open>process_excel_file\<close>. The file is \<open>None\<close> when \<^verbatim>\<open>pd.read_excel\<close> raises and \<open>Some df\<close>
  when it returns the grid \<open>df\<close>. Any exception ends in the handler of line 280, which
  returns an empty frame; lines 272 to 274 drop the rows whose State is the Region.
\<close>

definition process_excel_file ::
  "float_parser \<Rightarrow> grid option \<Rightarrow> string option \<Rightarrow> string \<Rightarrow> capacity_record list" where
  "process_excel_file pyfloat file date region =
     (case file of
        None \<Rightarrow> []
      | Some df \<Rightarrow>
          let s = locate_headers df;
              sc = sector_col_or_default s
          in (case classify_rows pyfloat s sc date region (drop (start_row s) df) (None, []) of
                Inl e \<Rightarrow> []
              | Inr (current_state, result_data) \<Rightarrow>
                  filter (\<lambda>rec. State rec \<noteq> Region rec) result_data))"

text \<open>
  A parser for plain decimal literals (an optional sign, digits, an optional point and
  digits), on which Python's \<^verbatim>\<open>float\<close> gives the number written. It instantiates
  \<open>pyfloat\<close> where a theorem is run on a concrete grid.
\<close>

fun digits_value :: "string \<Rightarrow> nat \<Rightarrow> nat" where
  "digits_value [] acc = acc"
| "digits_value (c # cs) acc = digits_value cs (10 * acc + (of_char c - 48))"

definition unsigned_decimal :: "string \<Rightarrow> real option" where
  "unsigned_decimal s =
     (let ip = takeWhile is_digit s; rest = dropWhile is_digit s
      in if rest = [] then (if ip = [] then None else Some (real (digits_value ip 0)))
         else if hd rest = CHR ''.'' \<and> list_all is_digit (tl rest) \<and> (ip \<noteq> [] \<or> tl rest \<noteq> [])
           then Some (real (digits_value (ip @ tl rest) 0) / 10 ^ length (tl rest))
         else None)"

definition decimal_float :: float_parser where
  "decimal_float s =
     (case s of
        [] \<Rightarrow> None
      | c # t \<Rightarrow>
          if c = CHR ''-'' then map_option uminus (unsigned_decimal t)
          else if c = CHR ''+'' then unsigned_decimal t
          else unsigned_decimal s)"

section \<open>Network\<close>

text \<open>
  The network is a collaborator: \<open>'w\<close> is its hidden state, which every request may
  change. \<open>head_request url\<close> tells whether \<^verbatim>\<open>requests.head(url)\<close> returned with status
  200 (line 362; an exception gives \<open>False\<close>). \<open>get_request url\<close> is lines 24 to 28:
  \<open>Content file\<close> when the answer was written to disk, \<open>file\<close> being what
  \<^verbatim>\<open>pd.read_excel\<close> later makes of it (\<open>None\<close> when it raises), \<open>RequestException\<close> when
  \<^verbatim>\<open>requests\<close> raised, \<open>OtherException\<close> for any other exception. The requests made
  are logged in order.
\<close>

datatype response = Content "grid option" | RequestException | OtherException

datatype event = Head string | Get string

record 'w network =
  head_request :: "string \<Rightarrow> 'w \<Rightarrow> bool \<times> 'w"
  get_request :: "string \<Rightarrow> 'w \<Rightarrow> response \<times> 'w"

type_synonym 'w world = "'w \<times> event list"

text \<open>
  \<^verbatim>\<open>download_excel_file\<close>: \<open>download_attempts\<close> is the loop with \<open>n\<close> attempts left, which
  retries after a \<^verbatim>\<open>RequestException\<close> and stops at any other exception. The result is
  \<open>Some file\<close> for \<^verbatim>\<open>True\<close>, with the file saved, and \<open>None\<close> for \<^verbatim>\<open>False\<close>.
\<close>

fun download_attempts ::
  "'w network \<Rightarrow> string \<Rightarrow> nat \<Rightarrow> 'w world \<Rightarrow> grid option option \<times> 'w world" where
  "download_attempts net url 0 st = (None, st)"
| "download_attempts net url (Suc n) st =
     (case st of (w, evs) \<Rightarrow>
        (case get_request net url w of
           (Content file, w') \<Rightarrow> (Some file, (w', evs @ [Get url]))
         | (RequestException, w') \<Rightarrow> download_attempts net url n (w', evs @ [Get url])
         | (OtherException, w') \<Rightarrow> (None, (w', evs @ [Get url]))))"

definition download_excel_file ::
  "'w network \<Rightarrow> string \<Rightarrow> 'w world \<Rightarrow> grid option option \<times> 'w world" where
  "download_excel_file net url st = download_attempts net url 3 st"

definition month_num :: "string \<rightharpoonup> string" where
  "month_num = map_of [(''JAN'', ''01''), (''FEB'', ''02''), (''MAR'', ''03''), (''APR'', ''04''),
                       (''MAY'', ''05''), (''JUN'', ''06''), (''JUL'', ''07''), (''AUG'', ''08''),
                       (''SEP'', ''09''), (''OCT'', ''10''), (''NOV'', ''11''), (''DEC'', ''12'')]"

definition regions :: "string list" where
  "regions = [''Northern'', ''Eastern'', ''Western'', ''Southern'', ''North Eastern'']"

definition file_name :: "string \<Rightarrow> string \<Rightarrow> string \<Rightarrow> string" where
  "file_name region year mm = ''capacity2-'' @ region @ ''-'' @ year @ ''-'' @ mm @ ''.xls''"

definition file_url :: "string \<Rightarrow> string \<Rightarrow> string \<Rightarrow> string" where
  "file_url year month filename =
     ''https://npp.gov.in/public-reports/cea/monthly/installcap/'' @ year @ ''/'' @ month @
     ''/'' @ filename"

text \<open>\<^verbatim>\<open>generate_urls_for_month_year\<close>: the triples (url, filename, region).\<close>

definition generate_urls_for_month_year ::
  "string \<Rightarrow> string \<Rightarrow> py_error + (string \<times> string \<times> string) list" where
  "generate_urls_for_month_year year month =
     bind_err (lookup month_num month) (\<lambda>mm.
       Inr (map (\<lambda>region.
                  let filename = file_name region year mm
                  in (file_url year month filename, filename, region)) regions))"

definition check_data_availability ::
  "'w network \<Rightarrow> string \<Rightarrow> string \<Rightarrow> 'w world \<Rightarrow> py_error + (bool \<times> 'w world)" where
  "check_data_availability net year month st =
     bind_err (lookup month_num month) (\<lambda>mm.
       let test_filename = file_name ''Northern'' year mm;
           test_url = file_url year month test_filename
       in (case st of (w, evs) \<Rightarrow>
             (case head_request net test_url w of
                (ok, w') \<Rightarrow> Inr (ok, (w', evs @ [Head test_url])))))"

section \<open>Region Aggregator\<close>

text \<open>
  \<^verbatim>\<open>.round(2)\<close> on a float column multiplies by 100, rounds to the nearest integer with
  ties to the even one, and divides by 100.
\<close>

definition round_half_even :: "real \<Rightarrow> int" where
  "round_half_even x =
     (let f = \<lfloor>x\<rfloor>; d = x - of_int f
      in if d < 1 / 2 then f else if d > 1 / 2 then f + 1 else if even f then f else f + 1)"

definition round2 :: "real \<Rightarrow> real" where
  "round2 x = of_int (round_half_even (x * 100)) / 100"

text \<open>One row of the frame \<^verbatim>\<open>all_india_totals\<close>: the nine aggregated columns.\<close>

record totals =
  Coal_sum :: real
  Lignite_sum :: real
  Gas_sum :: real
  Diesel_sum :: real
  Thermal_Total_sum :: real
  Nuclear_sum :: real
  Hydro_sum :: real
  RES_sum :: real
  Total_sum :: real

definition column_sum :: "('a \<Rightarrow> real) \<Rightarrow> 'a list \<Rightarrow> real" where
  "column_sum f rs = sum_list (map f rs)"

definition group_sum :: "capacity_record list \<Rightarrow> totals" where
  "group_sum rs =
     \<lparr> Coal_sum = round2 (column_sum Coal rs), Lignite_sum = round2 (column_sum Lignite rs),
       Gas_sum = round2 (column_sum Gas rs), Diesel_sum = round2 (column_sum Diesel rs),
       Thermal_Total_sum = round2 (column_sum Thermal_Total rs),
       Nuclear_sum = round2 (column_sum Nuclear rs), Hydro_sum = round2 (column_sum Hydro rs),
       RES_sum = round2 (column_sum RES rs), Total_sum = round2 (column_sum Total rs) \<rparr>"

text \<open>
  Lines 429 to 439: \<^verbatim>\<open>groupby('Sector')\<close> with \<^verbatim>\<open>sum\<close>, then \<^verbatim>\<open>round(2)\<close>; the index holds the
  sectors that occur, sorted.
\<close>

definition all_india_totals :: "capacity_record list \<Rightarrow> (string \<times> totals) list" where
  "all_india_totals monthly_data =
     map (\<lambda>k. (k, group_sum (filter (\<lambda>rec. Sector rec = k) monthly_data)))
         (sort (remdups (map Sector monthly_data)))"

text \<open>Line 467: \<^verbatim>\<open>all_india_totals.sum()\<close>, the sum of every column over all groups.\<close>

definition overall_totals :: "(string \<times> totals) list \<Rightarrow> totals" where
  "overall_totals tot =
     \<lparr> Coal_sum = column_sum (Coal_sum \<circ> snd) tot, Lignite_sum = column_sum (Lignite_sum \<circ> snd) tot,
       Gas_sum = column_sum (Gas_sum \<circ> snd) tot, Diesel_sum = column_sum (Diesel_sum \<circ> snd) tot,
       Thermal_Total_sum = column_sum (Thermal_Total_sum \<circ> snd) tot,
       Nuclear_sum = column_sum (Nuclear_sum \<circ> snd) tot,
       Hydro_sum = column_sum (Hydro_sum \<circ> snd) tot, RES_sum = column_sum (RES_sum \<circ> snd) tot,
       Total_sum = column_sum (Total_sum \<circ> snd) tot \<rparr>"

definition all_india_row :: "string option \<Rightarrow> string \<Rightarrow> totals \<Rightarrow> capacity_record" where
  "all_india_row date sector t =
     \<lparr> Date = date, Region = ''All India'', State = ''ALL INDIA'', Sector = sector,
       Coal = Coal_sum t, Lignite = Lignite_sum t, Gas = Gas_sum t, Diesel = Diesel_sum t,
       Thermal_Total = Thermal_Total_sum t, Nuclear = Nuclear_sum t, Hydro = Hydro_sum t,
       RES = RES_sum t, Total = Total_sum t \<rparr>"

text \<open>Lines 445 to 483: the rows of the roll-up.\<close>

definition all_india_rows :: "string option \<Rightarrow> (string \<times> totals) list \<Rightarrow> capacity_record list" where
  "all_india_rows date tot =
     concat (map (\<lambda>sector. case map_of tot sector of
                              None \<Rightarrow> []
                            | Some t \<Rightarrow> [all_india_row date sector t])
                 [''State'', ''Private'', ''Central''])
     @ [all_india_row date ''Total'' (overall_totals tot)]"

text \<open>
  The loop of lines 396 to 422 over the five files, with the state \<^verbatim>\<open>monthly_data\<close>,
  \<^verbatim>\<open>successful_downloads\<close> and the network. \<^verbatim>\<open>extract_date_from_filename\<close> only makes the text
  of the Date column, which nothing below reads: it is the parameter \<open>date_of\<close>.
\<close>

fun fetch_regions ::
  "float_parser \<Rightarrow> (string \<Rightarrow> string option) \<Rightarrow> 'w network \<Rightarrow> (string \<times> string \<times> string) list
     \<Rightarrow> capacity_record list \<times> nat \<times> 'w world \<Rightarrow> capacity_record list \<times> nat \<times> 'w world" where
  "fetch_regions pyfloat date_of net [] acc = acc"
| "fetch_regions pyfloat date_of net (u # urls) acc =
     (case (u, acc) of ((url, filename, region), (monthly_data, successful_downloads, st)) \<Rightarrow>
        (case download_excel_file net url st of
           (Some file, st') \<Rightarrow>
             let date = date_of filename;
                 df = process_excel_file pyfloat file date region
             in fetch_regions pyfloat date_of net urls
                  (if df \<noteq> [] then monthly_data @ df else monthly_data,
                   successful_downloads + 1, st')
         | (None, st') \<Rightarrow>
             fetch_regions pyfloat date_of net urls (monthly_data, successful_downloads, st')))"

text \<open>Lines 425 to 487: the roll-up is added under the condition of line 425.\<close>

definition add_all_india :: "capacity_record list \<Rightarrow> nat \<Rightarrow> capacity_record list" where
  "add_all_india monthly_data successful_downloads =
     (if monthly_data \<noteq> [] \<and> successful_downloads \<ge> 3
      then monthly_data @ all_india_rows (Date (hd monthly_data)) (all_india_totals monthly_data)
      else monthly_data)"

definition process_month_data ::
  "float_parser \<Rightarrow> (string \<Rightarrow> string option) \<Rightarrow> 'w network \<Rightarrow> string \<Rightarrow> string \<Rightarrow> 'w world
     \<Rightarrow> (py_error + capacity_record list) \<times> 'w world" where
  "process_month_data pyfloat date_of net year month st =
     (case check_data_availability net year month st of
        Inl e \<Rightarrow> (Inl e, st)
      | Inr (available, st') \<Rightarrow>
          if \<not> available then (Inr [], st')
          else (case generate_urls_for_month_year year month of
                  Inl e \<Rightarrow> (Inl e, st')
                | Inr urls \<Rightarrow>
                    (case fetch_regions pyfloat date_of net urls ([], 0, st') of
                       (monthly_data, successful_downloads, st'') \<Rightarrow>
                         (Inr (add_all_india monthly_data successful_downloads), st''))))"

section \<open>Period Orchestrator\<close>

text \<open>
  The loop of \<^verbatim>\<open>main\<close> (lines 546 to 565) over \<^verbatim>\<open>date_range\<close>, with the state \<^verbatim>\<open>all_data\<close> and
  the network; an exception of \<^verbatim>\<open>process_month_data\<close> is caught and the loop goes on.
\<close>

fun main_loop ::
  "float_parser \<Rightarrow> (string \<Rightarrow> string option) \<Rightarrow> 'w network \<Rightarrow> (string \<times> string) list
     \<Rightarrow> capacity_record list \<times> 'w world \<Rightarrow> capacity_record list \<times> 'w world" where
  "main_loop pyfloat date_of net [] acc = acc"
| "main_loop pyfloat date_of net (ym # date_range) acc =
     (case (ym, acc) of ((year, month), (all_data, st)) \<Rightarrow>
        (case process_month_data pyfloat date_of net year month st of
           (Inl e, st') \<Rightarrow> main_loop pyfloat date_of net date_range (all_data, st')
         | (Inr monthly_data, st') \<Rightarrow>
             main_loop pyfloat date_of net date_range
               (if monthly_data \<noteq> [] then all_data @ monthly_data else all_data, st')))"

section \<open>The header search, cell by cell\<close>

text \<open>
  The cells in the order in which the loops of lines 120 to 122 visit them, each with its
  row and column index; and the test of a label on a visited cell.
\<close>

type_synonym visit = "nat \<times> nat \<times> cell"

definition scan_order :: "grid \<Rightarrow> visit list" where
  "scan_order df =
     concat (map (\<lambda>(idx, r). map (\<lambda>(col_idx, c). (idx, col_idx, c)) (enumerate 0 r))
                 (enumerate 0 (take 15 df)))"

definition col_of :: "visit \<Rightarrow> nat" where
  "col_of v = fst (snd v)"

definition matches :: "(nat \<Rightarrow> string \<Rightarrow> bool) \<Rightarrow> visit \<Rightarrow> bool" where
  "matches label v =
     (case snd (snd v) of
        None \<Rightarrow> False
      | Some raw \<Rightarrow> label (col_of v) (strip (upper raw)))"



text \<open>
  The two shapes of the ten \<^verbatim>\<open>if\<close> statements: the state and sector columns are assigned
  at every match, the other eight only while they are still \<^verbatim>\<open>None\<close>.
\<close>

definition set_last ::
  "(('a \<Rightarrow> 'a) \<Rightarrow> scan \<Rightarrow> scan) \<Rightarrow> 'a \<Rightarrow> bool \<Rightarrow> nat \<Rightarrow> scan \<Rightarrow> scan" where
  "set_last upd v hit idx s =
     (if hit then header_rows_update (\<lambda>_. insert idx (header_rows s)) (upd (\<lambda>_. v) s) else s)"

definition set_first ::
  "(scan \<Rightarrow> nat option) \<Rightarrow> ((nat option \<Rightarrow> nat option) \<Rightarrow> scan \<Rightarrow> scan) \<Rightarrow> nat \<Rightarrow> bool \<Rightarrow> nat
     \<Rightarrow> scan \<Rightarrow> scan" where
  "set_first get upd col_idx hit idx s =
     (if hit \<and> get s = None
      then header_rows_update (\<lambda>_. insert idx (header_rows s)) (upd (\<lambda>_. Some col_idx) s) else s)"

section \<open>Sample inputs\<close>

text \<open>
  A grid, and networks whose state counts the requests answered so far, on which the
  theorems below are run.
\<close>

definition sample_date :: "string \<Rightarrow> string option" where
  "sample_date filename = None"

definition sample_grid :: grid where
  "sample_grid =
     [[Some ''State'', Some ''Sector'', Some ''Coal'', Some ''Lignite'', Some ''Gas'', Some ''Diesel''],
      [Some ''Goa'', None, None, None, None, None],
      [None, Some ''STATE SECTOR'', Some ''0.0625'', Some ''0.0625'', Some ''0.0625'', Some ''0.0625'']]"

definition sample_net :: "nat network" where
  "sample_net =
     \<lparr> head_request = (\<lambda>url w. (True, w)),
       get_request = (\<lambda>url w. (if w = 0 then Content (Some sample_grid)
                                 else if w < 3 then Content None
                                 else RequestException, w + 1)) \<rparr>"

definition sample_record :: capacity_record where
  "sample_record = \<lparr> Date = None, Region = ''Northern'', State = ''Goa'', Sector = ''State'',
       Coal = 1 / 16, Lignite = 1 / 16, Gas = 1 / 16, Diesel = 1 / 16, Thermal_Total = 1 / 4,
       Nuclear = 0, Hydro = 0, RES = 0, Total = 1 / 4 \<rparr>"

definition sample_all_india :: "string \<Rightarrow> capacity_record" where
  "sample_all_india sector = \<lparr> Date = None, Region = ''All India'', State = ''ALL INDIA'',
       Sector = sector, Coal = 3 / 50, Lignite = 3 / 50, Gas = 3 / 50, Diesel = 3 / 50,
       Thermal_Total = 1 / 4, Nuclear = 0, Hydro = 0, RES = 0, Total = 1 / 4 \<rparr>"

definition june_urls :: "(string \<times> string \<times> string) list" where
  "june_urls = map (\<lambda>region. (file_url ''2025'' ''JUN'' (file_name region ''2025'' ''06''),
                                file_name region ''2025'' ''06'', region)) regions"


definition closed_net :: "nat network" where
  "closed_net =
     \<lparr> head_request = (\<lambda>url w. (False, w + 1)),
       get_request = (\<lambda>url w. (Content None, w + 1)) \<rparr>"

definition negative_grid :: grid where
  "negative_grid =
     [[Some ''State'', Some ''Sector'', Some ''Coal'', Some ''Gas''],
      [Some ''Goa'', None, None, None],
      [None, Some ''STATE SECTOR'', Some ''100'', Some ''-5'']]"

text \<open>The nine numeric fields of a record are all at least 0.\<close>

definition non_negative :: "capacity_record \<Rightarrow> bool" where
  "non_negative rec =
     (0 \<le> Coal rec \<and> 0 \<le> Lignite rec \<and> 0 \<le> Gas rec \<and> 0 \<le> Diesel rec \<and>
      0 \<le> Thermal_Total rec \<and> 0 \<le> Nuclear rec \<and> 0 \<le> Hydro rec \<and> 0 \<le> RES rec \<and>
      0 \<le> Total rec)"

section \<open>Properties of the Record Builder\<close>

lemma extract_value_Inr:
  "extract_value pyfloat r c =
     Inr (case c of
            None \<Rightarrow> safe_numeric_convert pyfloat zero_value
          | Some k \<Rightarrow> if k < length r then safe_numeric_convert pyfloat (r ! k)
                      else safe_numeric_convert pyfloat zero_value)"
  by (simp add: extract_value_def iloc_def bind_err_def split: option.splits)

lemma safe_numeric_convert_zero_value:
  "pyfloat ''0'' = Some 0 \<Longrightarrow> safe_numeric_convert pyfloat zero_value = 0"
  by (simp add: safe_numeric_convert_def zero_value_def strip_def is_space_def)

lemma lookup_sector_mapping:
  "upper sector \<in> set [''STATE SECTOR'', ''PVT SECTOR'', ''CENTRAL SECTOR'']
     \<Longrightarrow> \<exists>name. lookup sector_mapping (upper sector) = Inr name \<and>
                  name \<in> set [''State'', ''Private'', ''Central'']"
  by (auto simp add: lookup_def sector_mapping_def)

lemma build_record_fields:
  assumes "build_record pyfloat s date region current_state sector r = Inr rec"
  shows "Date rec = date \<and> Region rec = region \<and> State rec = current_state \<and>
         Sector rec \<in> set [''State'', ''Private'', ''Central''] \<and>
         extract_value pyfloat r (coal_col s) = Inr (Coal rec) \<and>
         extract_value pyfloat r (lignite_col s) = Inr (Lignite rec) \<and>
         extract_value pyfloat r (gas_col s) = Inr (Gas rec) \<and>
         extract_value pyfloat r (diesel_col s) = Inr (Diesel rec) \<and>
         extract_value pyfloat r (nuclear_col s) = Inr (Nuclear rec) \<and>
         extract_value pyfloat r (hydro_col s) = Inr (Hydro rec) \<and>
         extract_value pyfloat r (res_col s) = Inr (RES rec) \<and>
         Thermal_Total rec = Coal rec + Lignite rec + Gas rec + Diesel rec \<and>
         (\<exists>g. extract_value pyfloat r (total_col s) = Inr g \<and>
              Total rec = (if g = 0 then Thermal_Total rec + Nuclear rec + Hydro rec + RES rec
                           else g))"
  using assms
  by (auto simp add: build_record_def extract_value_Inr bind_err_def Let_def lookup_def
        sector_mapping_def split: if_splits)

lemma build_record_Inr:
  assumes "upper sector \<in> set [''STATE SECTOR'', ''PVT SECTOR'', ''CENTRAL SECTOR'']"
  shows "\<exists>rec. build_record pyfloat s date region current_state sector r = Inr rec"
  using lookup_sector_mapping [OF assms]
  by (auto simp add: build_record_def extract_value_Inr bind_err_def Let_def)

text \<open>
  Claim C8. Numeric extraction never fails: for a column that is absent or out of the row
  the value is 0, for a cell that is missing, empty, \<^verbatim>\<open>nan\<close>, \<^verbatim>\<open>None\<close> or not a number the value
  is 0, and otherwise it is the number parsed; and the Record Builder returns a record for
  every sector row, whatever its cells hold. The first hypothesis is Python's
  \<^verbatim>\<open>float("0") == 0.0\<close>, the second the test of line 212 under which the builder runs.
\<close>

theorem numeric_extraction_total:
  assumes zero: "pyfloat ''0'' = Some 0"
    and sec: "upper sector \<in> set [''STATE SECTOR'', ''PVT SECTOR'', ''CENTRAL SECTOR'']"
  shows "extract_value pyfloat r c =
           Inr (case c of
                  None \<Rightarrow> 0
                | Some k \<Rightarrow>
                    if k < length r
                    then (case r ! k of
                            None \<Rightarrow> 0
                          | Some s \<Rightarrow>
                              if strip s \<in> {''nan'', '''', ''None''} then 0
                              else (case pyfloat (strip s) of None \<Rightarrow> 0 | Some x \<Rightarrow> x))
                    else 0) \<and>
         (\<exists>rec. build_record pyfloat cm date region current_state sector r = Inr rec)"
proof
  show "extract_value pyfloat r c =
           Inr (case c of
                  None \<Rightarrow> 0
                | Some k \<Rightarrow>
                    if k < length r
                    then (case r ! k of
                            None \<Rightarrow> 0
                          | Some s \<Rightarrow>
                              if strip s \<in> {''nan'', '''', ''None''} then 0
                              else (case pyfloat (strip s) of None \<Rightarrow> 0 | Some x \<Rightarrow> x))
                    else 0)"
    unfolding extract_value_Inr safe_numeric_convert_zero_value [of pyfloat, OF zero]
    by (simp add: safe_numeric_convert_def Let_def split: option.splits)
  show "\<exists>rec. build_record pyfloat cm date region current_state sector r = Inr rec"
    by (rule build_record_Inr [OF sec])
qed

theorem numeric_extraction_total_witness:
  "decimal_float ''0'' = Some 0 \<and>
   upper ''Pvt Sector'' \<in> set [''STATE SECTOR'', ''PVT SECTOR'', ''CENTRAL SECTOR''] \<and>
   extract_value decimal_float [Some ''n/a'', Some '' 12.5 ''] (Some 0) = Inr 0 \<and>
   extract_value decimal_float [Some ''n/a'', Some '' 12.5 ''] (Some 1) = Inr (25 / 2) \<and>
   extract_value decimal_float [Some ''n/a'', Some '' 12.5 ''] (Some 7) = Inr 0"
proof -
  have zero: "decimal_float ''0'' = Some 0"
    by code_simp
  have sec: "upper ''Pvt Sector'' \<in> set [''STATE SECTOR'', ''PVT SECTOR'', ''CENTRAL SECTOR'']"
    by code_simp
  have p0: "strip ''n/a'' = ''n/a''" and p1: "strip '' 12.5 '' = ''12.5''"
    by code_simp+
  have f0: "decimal_float ''n/a'' = None" and f1: "decimal_float ''12.5'' = Some (25 / 2)"
    by code_simp+
  note t = numeric_extraction_total [where pyfloat = decimal_float and r = "[Some ''n/a'', Some '' 12.5 '']", OF zero sec]
  have "extract_value decimal_float [Some ''n/a'', Some '' 12.5 ''] (Some 0) = Inr 0"
    using t [of "Some 0", THEN conjunct1] by (simp add: p0 f0)
  moreover have "extract_value decimal_float [Some ''n/a'', Some '' 12.5 ''] (Some 1) = Inr (25 / 2)"
    using t [of "Some 1", THEN conjunct1] by (simp add: p1 f1)
  moreover have "extract_value decimal_float [Some ''n/a'', Some '' 12.5 ''] (Some 7) = Inr 0"
    using t [of "Some 7", THEN conjunct1] by simp
  ultimately show ?thesis
    using zero sec by blast
qed

text \<open>
  Claim C3. The Total of a record built from a data row is the value of the source
  grand-total cell when that value is not zero, and Thermal Total + Nuclear + Hydro + RES
  otherwise; the source value is 0 for an absent column and, by \<open>safe_numeric_convert\<close>,
  for a missing or unparseable cell.
\<close>

theorem grand_total_rule:
  assumes zero: "pyfloat ''0'' = Some 0"
    and built: "build_record pyfloat cm date region current_state sector r = Inr rec"
  shows "Total rec =
           (let source = (case total_col cm of
                            None \<Rightarrow> 0
                          | Some k \<Rightarrow> if k < length r then safe_numeric_convert pyfloat (r ! k)
                                      else 0)
            in if source \<noteq> 0 then source
               else Thermal_Total rec + Nuclear rec + Hydro rec + RES rec)"
proof -
  from build_record_fields [OF built] obtain g where
    g: "extract_value pyfloat r (total_col cm) = Inr g" and
    t: "Total rec = (if g = 0 then Thermal_Total rec + Nuclear rec + Hydro rec + RES rec else g)"
    by blast
  from g have "g = (case total_col cm of
                      None \<Rightarrow> 0
                    | Some k \<Rightarrow> if k < length r then safe_numeric_convert pyfloat (r ! k) else 0)"
    unfolding extract_value_Inr safe_numeric_convert_zero_value [of pyfloat, OF zero]
    by (simp split: option.splits if_splits)
  with t show ?thesis
    by (simp add: Let_def)
qed

theorem grand_total_rule_witness:
  "decimal_float ''0'' = Some 0 \<and>
   build_record decimal_float (init_scan\<lparr>coal_col := Some 0, hydro_col := Some 1, total_col := Some 2\<rparr>)
     None ''Northern'' ''Goa'' ''STATE SECTOR'' [Some ''10'', Some ''4'', Some ''0''] =
     Inr \<lparr> Date = None, Region = ''Northern'', State = ''Goa'', Sector = ''State'',
           Coal = 10, Lignite = 0, Gas = 0, Diesel = 0, Thermal_Total = 10, Nuclear = 0,
           Hydro = 4, RES = 0, Total = 14 \<rparr> \<and>
   Total \<lparr> Date = None, Region = ''Northern'', State = ''Goa'', Sector = ''State'',
           Coal = 10, Lignite = 0, Gas = 0, Diesel = 0, Thermal_Total = 10, Nuclear = 0,
           Hydro = 4, RES = 0, Total = 14 \<rparr> = 10 + 0 + 4 + 0"
proof -
  have zero: "decimal_float ''0'' = Some 0"
    by code_simp
  have built:
    "build_record decimal_float (init_scan\<lparr>coal_col := Some 0, hydro_col := Some 1, total_col := Some 2\<rparr>)
       None ''Northern'' ''Goa'' ''STATE SECTOR'' [Some ''10'', Some ''4'', Some ''0''] =
       Inr \<lparr> Date = None, Region = ''Northern'', State = ''Goa'', Sector = ''State'',
             Coal = 10, Lignite = 0, Gas = 0, Diesel = 0, Thermal_Total = 10, Nuclear = 0,
             Hydro = 4, RES = 0, Total = 14 \<rparr>"
    by code_simp
  have src: "safe_numeric_convert decimal_float (Some ''0'') = 0"
    by code_simp
  have "Total \<lparr> Date = None, Region = ''Northern'', State = ''Goa'', Sector = ''State'',
           Coal = 10, Lignite = 0, Gas = 0, Diesel = 0, Thermal_Total = 10, Nuclear = 0,
           Hydro = 4, RES = 0, Total = 14 \<rparr> = 10 + 0 + 4 + 0"
    using grand_total_rule [where pyfloat = decimal_float, OF zero built]
    by (simp add: init_scan_def src)
  with zero built show ?thesis
    by blast
qed

section \<open>Invariants of the loops\<close>

text \<open>
  What holds of every record that the Record Builder can return holds of every record in
  the result of the row loop, of \<^verbatim>\<open>process_excel_file\<close> and of the loop over the regions.
\<close>

lemma classify_row_inv:
  assumes step: "classify_row pyfloat s sc date region r st = Inr st'"
    and acc: "\<forall>rec \<in> set (snd st). P rec"
    and new: "\<And>cs sector rec.
                build_record pyfloat s date region cs sector r = Inr rec \<Longrightarrow> P rec"
  shows "\<forall>rec \<in> set (snd st'). P rec"
proof (cases st)
  case (Pair cur result_data)
  with step acc new show ?thesis
    by (auto simp add: classify_row_def bind_err_def split: sum.splits if_splits)
qed

lemma classify_rows_inv:
  assumes run: "classify_rows pyfloat s sc date region rows st = Inr st'"
    and acc: "\<forall>rec \<in> set (snd st). P rec"
    and new: "\<And>r cs sector rec.
                r \<in> set rows \<Longrightarrow>
                build_record pyfloat s date region cs sector r = Inr rec \<Longrightarrow> P rec"
  shows "\<forall>rec \<in> set (snd st'). P rec"
  using run acc new
proof (induction rows arbitrary: st)
  case Nil
  then show ?case by simp
next
  case (Cons r rows)
  from Cons.prems(1) obtain st1 where
    one: "classify_row pyfloat s sc date region r st = Inr st1" and
    rest: "classify_rows pyfloat s sc date region rows st1 = Inr st'"
    by (auto split: sum.splits)
  have "\<forall>rec \<in> set (snd st1). P rec"
  proof (rule classify_row_inv [OF one Cons.prems(2)])
    fix cs sector rec
    assume "build_record pyfloat s date region cs sector r = Inr rec"
    then show "P rec" by (rule Cons.prems(3) [rotated]) simp
  qed
  then show ?case
  proof (rule Cons.IH [OF rest])
    fix r' cs sector rec
    assume "r' \<in> set rows" and "build_record pyfloat s date region cs sector r' = Inr rec"
    then show "P rec" by (intro Cons.prems(3) [of r']) simp_all
  qed
qed

lemma process_excel_file_inv:
  assumes new: "\<And>df s r cs sector rec.
                  file = Some df \<Longrightarrow> r \<in> set df \<Longrightarrow>
                  build_record pyfloat s date region cs sector r = Inr rec \<Longrightarrow> P rec"
  shows "\<forall>rec \<in> set (process_excel_file pyfloat file date region). P rec"
proof (cases "file")
  case None
  then show ?thesis by (simp add: process_excel_file_def)
next
  case (Some df)
  show ?thesis
  proof (cases "classify_rows pyfloat (locate_headers df) (sector_col_or_default (locate_headers df))
                  date region (drop (start_row (locate_headers df)) df) (None, [])")
    case (Inl e)
    with Some show ?thesis by (simp add: process_excel_file_def Let_def)
  next
    case (Inr st')
    have "\<forall>rec \<in> set (snd st'). P rec"
    proof (rule classify_rows_inv [OF Inr])
      show "\<forall>rec \<in> set (snd (None, [])). P rec" by simp
    next
      fix r cs sector rec
      assume "r \<in> set (drop (start_row (locate_headers df)) df)"
        and b: "build_record pyfloat (locate_headers df) date region cs sector r = Inr rec"
      then have "r \<in> set df" by (meson in_set_dropD)
      then show "P rec" by (rule new [OF Some _ b])
    qed
    with Some Inr show ?thesis
      by (auto simp add: process_excel_file_def Let_def split: prod.splits)
  qed
qed

lemma process_excel_file_State:
  "\<forall>rec \<in> set (process_excel_file pyfloat file date region). State rec \<noteq> Region rec"
  by (auto simp add: process_excel_file_def Let_def split: option.splits sum.splits prod.splits)

lemma process_excel_file_shape:
  "\<forall>rec \<in> set (process_excel_file pyfloat file date region).
     Region rec = region \<and> Date rec = date \<and> Sector rec \<in> set [''State'', ''Private'', ''Central''] \<and>
     Thermal_Total rec = Coal rec + Lignite rec + Gas rec + Diesel rec"
  by (rule process_excel_file_inv) (use build_record_fields in blast)

lemma fetch_regions_inv:
  assumes run: "fetch_regions pyfloat date_of net urls (monthly0, n0, st0) = (monthly, n, st)"
    and acc: "\<forall>rec \<in> set monthly0. P rec"
    and new: "\<And>url filename region file date rec.
                (url, filename, region) \<in> set urls \<Longrightarrow>
                rec \<in> set (process_excel_file pyfloat file date region) \<Longrightarrow> P rec"
  shows "\<forall>rec \<in> set monthly. P rec"
  using run acc new
proof (induction urls arbitrary: monthly0 n0 st0)
  case Nil
  then show ?case by simp
next
  case (Cons u urls)
  obtain url filename region where u: "u = (url, filename, region)"
    by (cases u) auto
  obtain res st1 where Pair: "download_excel_file net url st0 = (res, st1)"
    by (cases "download_excel_file net url st0") blast
  have tail: "\<And>url filename region file date rec.
                (url, filename, region) \<in> set urls \<Longrightarrow>
                rec \<in> set (process_excel_file pyfloat file date region) \<Longrightarrow> P rec"
    using Cons.prems(3) by (meson list.set_intros(2))
  show ?case
  proof -
    show ?thesis
    proof (cases res)
      case None
      with Pair u Cons.prems(1) have
        "fetch_regions pyfloat date_of net urls (monthly0, n0, st1) = (monthly, n, st)"
        by simp
      then show ?thesis
        by (rule Cons.IH [OF _ Cons.prems(2) tail])
    next
      case (Some wb)
      define df where "df = process_excel_file pyfloat wb (date_of filename) region"
      from Some Pair u Cons.prems(1) have
        "fetch_regions pyfloat date_of net urls
           (if df \<noteq> [] then monthly0 @ df else monthly0, n0 + 1, st1) = (monthly, n, st)"
        by (auto simp add: df_def Let_def split: if_splits)
      moreover have "\<forall>rec \<in> set (if df \<noteq> [] then monthly0 @ df else monthly0). P rec"
        using Cons.prems(2) Cons.prems(3) [of url filename region _ wb "date_of filename"] u
        by (auto simp add: df_def)
      ultimately show ?thesis
        by (rule Cons.IH [OF _ _ tail])
    qed
  qed
qed

section \<open>Properties of the Region Aggregator and the Period Orchestrator\<close>

lemma all_india_rows_shape:
  "\<forall>rec \<in> set (all_india_rows date tot). Region rec = ''All India'' \<and> State rec = ''ALL INDIA''"
  by (auto simp add: all_india_rows_def all_india_row_def split: option.splits)




lemma generate_urls_regions:
  "generate_urls_for_month_year year month = Inr urls \<Longrightarrow>
     map (\<lambda>(url, filename, region). region) urls = regions"
  by (auto simp add: generate_urls_for_month_year_def bind_err_def lookup_def Let_def comp_def
        split: option.splits)

lemma fetch_regions_count:
  "fetch_regions pyfloat date_of net urls (monthly0, n0, st0) = (monthly, n, st) \<Longrightarrow>
     n0 \<le> n \<and> n \<le> n0 + length urls"
proof (induction urls arbitrary: monthly0 n0 st0)
  case Nil
  then show ?case by simp
next
  case (Cons u urls)
  obtain url filename region where u: "u = (url, filename, region)"
    by (cases u) auto
  obtain res st1 where dl: "download_excel_file net url st0 = (res, st1)"
    by (cases "download_excel_file net url st0") blast
  show ?case
  proof (cases res)
    case None
    with dl u Cons.prems have
      "fetch_regions pyfloat date_of net urls (monthly0, n0, st1) = (monthly, n, st)"
      by simp
    from Cons.IH [OF this] show ?thesis by simp
  next
    case (Some wb)
    with dl u Cons.prems obtain m1 where
      "fetch_regions pyfloat date_of net urls (m1, n0 + 1, st1) = (monthly, n, st)"
      by (auto simp add: Let_def split: if_splits)
    from Cons.IH [OF this] show ?thesis by simp
  qed
qed

lemma fetch_regions_shape:
  assumes run: "fetch_regions pyfloat date_of net urls ([], 0, st0) = (monthly, n, st)"
  shows "\<forall>rec \<in> set monthly.
           Region rec \<in> (\<lambda>(url, filename, region). region) ` set urls \<and>
           State rec \<noteq> Region rec \<and>
           Sector rec \<in> set [''State'', ''Private'', ''Central''] \<and>
           Thermal_Total rec = Coal rec + Lignite rec + Gas rec + Diesel rec"
proof (rule fetch_regions_inv [OF run])
  show "\<forall>rec \<in> set []. Region rec \<in> (\<lambda>(url, filename, region). region) ` set urls \<and>
           State rec \<noteq> Region rec \<and>
           Sector rec \<in> set [''State'', ''Private'', ''Central''] \<and>
           Thermal_Total rec = Coal rec + Lignite rec + Gas rec + Diesel rec"
    by simp
next
  fix url filename region wb date rec
  assume u: "(url, filename, region) \<in> set urls"
    and r: "rec \<in> set (process_excel_file pyfloat wb date region)"
  from r process_excel_file_shape [of pyfloat wb date region]
    process_excel_file_State [of pyfloat wb date region] u
  show "Region rec \<in> (\<lambda>(url, filename, region). region) ` set urls \<and>
           State rec \<noteq> Region rec \<and>
           Sector rec \<in> set [''State'', ''Private'', ''Central''] \<and>
           Thermal_Total rec = Coal rec + Lignite rec + Gas rec + Diesel rec"
    by force
qed

lemma process_month_data_unavailable:
  "check_data_availability net year month st = Inr (False, st1) \<Longrightarrow>
     process_month_data pyfloat date_of net year month st = (Inr [], st1)"
  by (simp add: process_month_data_def)

lemma process_month_data_available:
  assumes "check_data_availability net year month st = Inr (True, st1)"
  shows "\<exists>urls monthly_data successful_downloads st2.
           generate_urls_for_month_year year month = Inr urls \<and>
           fetch_regions pyfloat date_of net urls ([], 0, st1) =
             (monthly_data, successful_downloads, st2) \<and>
           process_month_data pyfloat date_of net year month st =
             (Inr (add_all_india monthly_data successful_downloads), st2)"
proof -
  from assms obtain mm where mm: "month_num month = Some mm"
    by (auto simp add: check_data_availability_def bind_err_def lookup_def split: option.splits)
  then obtain urls where urls: "generate_urls_for_month_year year month = Inr urls"
    by (simp add: generate_urls_for_month_year_def bind_err_def lookup_def)
  obtain monthly_data successful_downloads st2 where
    "fetch_regions pyfloat date_of net urls ([], 0, st1) = (monthly_data, successful_downloads, st2)"
    by (cases "fetch_regions pyfloat date_of net urls ([], 0, st1)") blast
  with assms urls show ?thesis
    by (simp add: process_month_data_def)
qed

lemma process_month_data_rows:
  assumes "process_month_data pyfloat date_of net year month st = (Inr rows, st')"
  shows "rows = [] \<or>
         (\<exists>urls monthly_data successful_downloads st1.
            generate_urls_for_month_year year month = Inr urls \<and>
            fetch_regions pyfloat date_of net urls ([], 0, st1) =
              (monthly_data, successful_downloads, st') \<and>
            rows = add_all_india monthly_data successful_downloads)"
proof (cases "check_data_availability net year month st")
  case (Inl e)
  with assms show ?thesis by (simp add: process_month_data_def)
next
  case (Inr p)
  obtain available st1 where p: "p = (available, st1)" by (cases p) blast
  show ?thesis
  proof (cases available)
    case False
    with Inr p assms show ?thesis by (simp add: process_month_data_def)
  next
    case True
    with Inr p have "check_data_availability net year month st = Inr (True, st1)" by simp
    from process_month_data_available [OF this, of pyfloat date_of] obtain
      urls monthly_data successful_downloads st2 where
      u: "generate_urls_for_month_year year month = Inr urls" and
      f: "fetch_regions pyfloat date_of net urls ([], 0, st1) =
            (monthly_data, successful_downloads, st2)" and
      p: "process_month_data pyfloat date_of net year month st =
            (Inr (add_all_india monthly_data successful_downloads), st2)"
      by blast
    from p assms have "rows = add_all_india monthly_data successful_downloads" and "st' = st2"
      by simp_all
    with u f show ?thesis by blast
  qed
qed

lemma add_all_india_rows:
  "add_all_india monthly_data n =
     monthly_data @
     (if monthly_data \<noteq> [] \<and> 3 \<le> n
      then all_india_rows (Date (hd monthly_data)) (all_india_totals monthly_data) else [])"
  by (simp add: add_all_india_def)


lemma fetch_regions_generated:
  assumes urls: "generate_urls_for_month_year year month = Inr urls"
    and run: "fetch_regions pyfloat date_of net urls ([], 0, st1) = (monthly_data, n, st2)"
  shows "n \<le> 5 \<and>
         (\<forall>rec \<in> set monthly_data.
            Region rec \<in> set regions \<and> State rec \<noteq> Region rec \<and>
            Sector rec \<in> set [''State'', ''Private'', ''Central''] \<and>
            Thermal_Total rec = Coal rec + Lignite rec + Gas rec + Diesel rec)"
proof -
  from generate_urls_regions [OF urls] have m: "map (\<lambda>(url, filename, region). region) urls = regions" .
  then have "length urls = 5"
    by (metis length_map regions_def length_Cons list.size(3) eval_nat_numeral(2,3) semiring_norm(26,27) Suc_numeral numeral_One One_nat_def)
  with fetch_regions_count [OF run] have "n \<le> 5" by simp
  moreover have "(\<lambda>(url, filename, region). region) ` set urls = set regions"
    using m by (metis set_map)
  ultimately show ?thesis
    using fetch_regions_shape [OF run] by simp
qed

lemma process_month_data_inv:
  assumes run: "process_month_data pyfloat date_of net year month st = (Inr rows, st')"
  shows "\<forall>rec \<in> set rows.
           State rec \<noteq> Region rec \<and>
           (Region rec \<noteq> ''All India'' \<longrightarrow>
              Thermal_Total rec = Coal rec + Lignite rec + Gas rec + Diesel rec)"
proof -
  from process_month_data_rows [OF run] show ?thesis
  proof
    assume "rows = []"
    then show ?thesis by simp
  next
    assume "\<exists>urls monthly_data successful_downloads st1.
              generate_urls_for_month_year year month = Inr urls \<and>
              fetch_regions pyfloat date_of net urls ([], 0, st1) =
                (monthly_data, successful_downloads, st') \<and>
              rows = add_all_india monthly_data successful_downloads"
    then obtain urls monthly_data n st1 where
      u: "generate_urls_for_month_year year month = Inr urls" and
      f: "fetch_regions pyfloat date_of net urls ([], 0, st1) = (monthly_data, n, st')" and
      r: "rows = add_all_india monthly_data n"
      by blast
    from fetch_regions_generated [OF u f] have
      reg: "\<forall>rec \<in> set monthly_data. State rec \<noteq> Region rec \<and>
              Thermal_Total rec = Coal rec + Lignite rec + Gas rec + Diesel rec"
      by blast
    have ai: "\<forall>rec \<in> set (all_india_rows (Date (hd monthly_data)) (all_india_totals monthly_data)).
                State rec \<noteq> Region rec \<and> Region rec = ''All India''"
      using all_india_rows_shape by fastforce
    show ?thesis
      unfolding r add_all_india_rows using reg ai by auto
  qed
qed

lemma main_loop_inv:
  assumes acc: "\<forall>rec \<in> set all_data. P rec"
    and new: "\<And>year month st rows st'.
                process_month_data pyfloat date_of net year month st = (Inr rows, st') \<Longrightarrow>
                \<forall>rec \<in> set rows. P rec"
  shows "\<forall>rec \<in> set (fst (main_loop pyfloat date_of net date_range (all_data, st))). P rec"
  using acc
proof (induction date_range arbitrary: all_data st)
  case Nil
  then show ?case by simp
next
  case (Cons ym date_range)
  obtain year month where ym: "ym = (year, month)" by (cases ym) blast
  obtain res st' where p: "process_month_data pyfloat date_of net year month st = (res, st')"
    by (cases "process_month_data pyfloat date_of net year month st") blast
  show ?case
  proof (cases res)
    case (Inl e)
    with ym p Cons.IH [OF Cons.prems] show ?thesis by simp
  next
    case (Inr rows)
    with p have "\<forall>rec \<in> set rows. P rec" by (simp add: new)
    with Cons.prems have "\<forall>rec \<in> set (if rows \<noteq> [] then all_data @ rows else all_data). P rec"
      by auto
    from Cons.IH [OF this] ym p Inr show ?thesis by simp
  qed
qed

text \<open>
  Claim C4. No record of the final table, be it a record of a region or a row of the
  roll-up, has its State equal to its Region: line 274 drops such records of a file, and
  the roll-up rows carry the State \<^verbatim>\<open>ALL INDIA\<close> and the Region \<^verbatim>\<open>All India\<close>.
\<close>

theorem state_never_region:
  "\<forall>rec \<in> set (fst (main_loop pyfloat date_of net date_range ([], st))).
     State rec \<noteq> Region rec"
proof (rule main_loop_inv)
  show "\<forall>rec \<in> set []. State rec \<noteq> Region rec" by simp
next
  fix year month st rows st'
  assume "process_month_data pyfloat date_of net year month st = (Inr rows, st')"
  from process_month_data_inv [OF this] show "\<forall>rec \<in> set rows. State rec \<noteq> Region rec"
    by blast
qed







text \<open>
  Claim C9. When the probe of the Northern file of a month fails, \<^verbatim>\<open>process_month_data\<close>
  returns no row and raises nothing, the only request made is the probe (no file is
  fetched), and the loop of \<^verbatim>\<open>main\<close> goes on with the next month, the master table
  unchanged.
\<close>

theorem unavailable_month_skipped:
  assumes mm: "month_num month = Some mm"
    and probe: "head_request net (file_url year month (file_name ''Northern'' year mm)) w = (False, w')"
  shows "process_month_data pyfloat date_of net year month (w, evs) =
           (Inr [], (w', evs @ [Head (file_url year month (file_name ''Northern'' year mm))])) \<and>
         main_loop pyfloat date_of net ((year, month) # date_range) (all_data, (w, evs)) =
           main_loop pyfloat date_of net date_range
             (all_data, (w', evs @ [Head (file_url year month (file_name ''Northern'' year mm))]))"
proof -
  have "check_data_availability net year month (w, evs) =
          Inr (False, (w', evs @ [Head (file_url year month (file_name ''Northern'' year mm))]))"
    using mm probe by (simp add: check_data_availability_def bind_err_def lookup_def Let_def)
  from process_month_data_unavailable [OF this, of pyfloat date_of] show ?thesis
    by simp
qed

section \<open>Runs on the sample inputs\<close>

lemma sample_file: "process_excel_file decimal_float (Some sample_grid) None ''Northern'' = [sample_record]"
  by code_simp

lemma no_file: "process_excel_file pyfloat None date region = []"
  by (simp add: process_excel_file_def)

lemma sample_download:
  "download_excel_file sample_net url (w, evs) =
     (if w = 0 then (Some (Some sample_grid), (1, evs @ [Get url]))
      else if w < 3 then (Some None, (w + 1, evs @ [Get url]))
      else (None, (w + 3, evs @ [Get url, Get url, Get url])))"
  by (simp add: download_excel_file_def sample_net_def numeral_3_eq_3)

lemma sample_fetch:
  "fetch_regions decimal_float sample_date sample_net
     [(u1, f1, ''Northern''), (u2, f2, ''Eastern''), (u3, f3, ''Western''),
      (u4, f4, ''Southern''), (u5, f5, ''North Eastern'')] ([], 0, (0, evs)) =
     ([sample_record], 3,
      (9, evs @ [Get u1, Get u2, Get u3, Get u4, Get u4, Get u4, Get u5, Get u5, Get u5]))"
  by (simp add: sample_download sample_file no_file sample_date_def)

lemma sample_rollup:
  "add_all_india [sample_record] 3 =
     [sample_record, sample_all_india ''State'', sample_all_india ''Total'']"
  by code_simp

lemma june_month: "month_num ''JUN'' = Some ''06''"
  by (simp add: month_num_def)

lemma june_generated: "generate_urls_for_month_year ''2025'' ''JUN'' = Inr june_urls"
  by (simp add: generate_urls_for_month_year_def bind_err_def lookup_def june_month june_urls_def
        Let_def)

lemma june_urls_split:
  "\<exists>u1 f1 u2 f2 u3 f3 u4 f4 u5 f5.
     june_urls = [(u1, f1, ''Northern''), (u2, f2, ''Eastern''), (u3, f3, ''Western''),
                  (u4, f4, ''Southern''), (u5, f5, ''North Eastern'')]"
  by (simp add: june_urls_def regions_def)

lemma sample_fetch_june:
  "\<exists>st2. fetch_regions decimal_float sample_date sample_net june_urls ([], 0, (0, evs)) =
           ([sample_record], 3, st2)"
proof -
  from june_urls_split obtain u1 f1 u2 f2 u3 f3 u4 f4 u5 f5 where
    "june_urls = [(u1, f1, ''Northern''), (u2, f2, ''Eastern''), (u3, f3, ''Western''),
                  (u4, f4, ''Southern''), (u5, f5, ''North Eastern'')]"
    by blast
  with sample_fetch [of u1 f1 u2 f2 u3 f3 u4 f4 u5 f5 evs] show ?thesis
    by simp
qed




lemma sample_available:
  "check_data_availability sample_net ''2025'' ''JUN'' (0, []) =
     Inr (True, (0, [Head (file_url ''2025'' ''JUN'' (file_name ''Northern'' ''2025'' ''06''))]))"
  by (simp add: check_data_availability_def bind_err_def lookup_def june_month Let_def
        sample_net_def)


lemma sample_month:
  "fst (process_month_data decimal_float sample_date sample_net ''2025'' ''JUN'' (0, [])) =
     Inr [sample_record, sample_all_india ''State'', sample_all_india ''Total'']"
proof -
  obtain st2 where
    "fetch_regions decimal_float sample_date sample_net june_urls
       ([], 0, (0, [Head (file_url ''2025'' ''JUN'' (file_name ''Northern'' ''2025'' ''06''))])) =
       ([sample_record], 3, st2)"
    using sample_fetch_june by blast
  then show ?thesis
    by (simp add: process_month_data_def sample_available june_generated sample_rollup)
qed


lemma sample_main:
  "fst (main_loop decimal_float sample_date sample_net [(''2025'', ''JUN'')] ([], (0, []))) =
     [sample_record, sample_all_india ''State'', sample_all_india ''Total'']"
proof -
  obtain res st' where
    p: "process_month_data decimal_float sample_date sample_net ''2025'' ''JUN'' (0, []) = (res, st')"
    by (cases "process_month_data decimal_float sample_date sample_net ''2025'' ''JUN'' (0, [])") blast
  with sample_month have "res = Inr [sample_record, sample_all_india ''State'', sample_all_india ''Total'']"
    by simp
  with p show ?thesis by simp
qed



theorem state_never_region_witness:
  "fst (main_loop decimal_float sample_date sample_net [(''2025'', ''JUN'')] ([], (0, []))) =
     [sample_record, sample_all_india ''State'', sample_all_india ''Total''] \<and>
   State sample_record \<noteq> Region sample_record \<and>
   State (sample_all_india ''State'') \<noteq> Region (sample_all_india ''State'') \<and>
   State (sample_all_india ''Total'') \<noteq> Region (sample_all_india ''Total'')"
  using state_never_region [of decimal_float sample_date sample_net "[(''2025'', ''JUN'')]" "(0, [])"]
  unfolding sample_main by simp



theorem unavailable_month_skipped_witness:
  "month_num ''JUN'' = Some ''06'' \<and>
   head_request closed_net (file_url ''2025'' ''JUN'' (file_name ''Northern'' ''2025'' ''06'')) 0 =
     (False, 1) \<and>
   process_month_data decimal_float sample_date closed_net ''2025'' ''JUN'' (0, []) =
     (Inr [], (1, [Head (file_url ''2025'' ''JUN'' (file_name ''Northern'' ''2025'' ''06''))])) \<and>
   main_loop decimal_float sample_date closed_net [(''2025'', ''JUN'')] ([], (0, [])) =
     ([], (1, [Head (file_url ''2025'' ''JUN'' (file_name ''Northern'' ''2025'' ''06''))]))"
proof -
  have probe:
    "head_request closed_net (file_url ''2025'' ''JUN'' (file_name ''Northern'' ''2025'' ''06'')) 0 =
       (False, 1)"
    by (simp add: closed_net_def)
  from unavailable_month_skipped [OF june_month probe, of decimal_float sample_date "[]" "[]" "[]"]
    june_month probe
  show ?thesis by simp
qed

section \<open>Properties of the Header Locator\<close>

lemma scan_cell_steps:
  "scan_cell idx col_idx (Some raw) s =
     (let cell_str = strip (upper raw) in
      set_first total_col total_col_update col_idx (is_total_label col_idx cell_str) idx
     (set_first res_col res_col_update col_idx (str_in ''RES'' cell_str) idx
     (set_first hydro_col hydro_col_update col_idx (str_in ''HYDRO'' cell_str) idx
     (set_first nuclear_col nuclear_col_update col_idx (str_in ''NUCLEAR'' cell_str) idx
     (set_first diesel_col diesel_col_update col_idx (str_in ''DIESEL'' cell_str) idx
     (set_first gas_col gas_col_update col_idx (str_in ''GAS'' cell_str) idx
     (set_first lignite_col lignite_col_update col_idx (str_in ''LIGNITE'' cell_str) idx
     (set_first coal_col coal_col_update col_idx (is_coal_label cell_str) idx
     (set_last sector_col_update (Some col_idx) (is_sector_label cell_str) idx
     (set_last state_col_update col_idx (is_state_label cell_str) idx s))))))))))"
  unfolding scan_cell_def option.case
  by (simp only:
    set_last_def [where upd = state_col_update, symmetric]
    set_last_def [where upd = sector_col_update, symmetric]
    set_first_def [where get = coal_col and upd = coal_col_update, symmetric]
    set_first_def [where get = lignite_col and upd = lignite_col_update, symmetric]
    set_first_def [where get = gas_col and upd = gas_col_update, symmetric]
    set_first_def [where get = diesel_col and upd = diesel_col_update, symmetric]
    set_first_def [where get = nuclear_col and upd = nuclear_col_update, symmetric]
    set_first_def [where get = hydro_col and upd = hydro_col_update, symmetric]
    set_first_def [where get = res_col and upd = res_col_update, symmetric]
    set_first_def [where get = total_col and upd = total_col_update, symmetric])
    (simp add: Let_def)

lemma select_other:
  "(\<And>f x. sel (upd f x) = sel x) \<Longrightarrow> (\<And>g x. sel (header_rows_update g x) = sel x) \<Longrightarrow>
     sel (set_first get upd col_idx hit idx s) = sel s"
  "(\<And>f x. sel (upd' f x) = sel x) \<Longrightarrow> (\<And>g x. sel (header_rows_update g x) = sel x) \<Longrightarrow>
     sel (set_last upd' v hit idx s) = sel s"
  by (simp_all add: set_first_def set_last_def)

lemma select_same:
  "(\<And>f g x. get (header_rows_update g (upd f x)) = f (get x)) \<Longrightarrow>
     get (set_first get upd col_idx hit idx s) = (if hit \<and> get s = None then Some col_idx else get s)"
  by (simp add: set_first_def)

lemma select_last:
  "state_col (set_last state_col_update v hit idx s) = (if hit then v else state_col s)"
  "sector_col (set_last sector_col_update w hit idx s) = (if hit then w else sector_col s)"
  by (simp_all add: set_last_def)

lemma scan_cell_None: "scan_cell idx col_idx None s = s"
  by (simp add: scan_cell_def)

lemma matches_Some:
  "matches label (idx, col_idx, Some raw) = label col_idx (strip (upper raw))"
  "matches label (idx, col_idx, None) = False"
  by (simp_all add: matches_def col_of_def)

lemma scan_cell_fields:
  "state_col (scan_cell idx col_idx c s) =
     (if matches (\<lambda>k. is_state_label) (idx, col_idx, c) then col_idx else state_col s)"
  "sector_col (scan_cell idx col_idx c s) =
     (if matches (\<lambda>k. is_sector_label) (idx, col_idx, c) then Some col_idx else sector_col s)"
  "coal_col (scan_cell idx col_idx c s) =
     (if matches (\<lambda>k. is_coal_label) (idx, col_idx, c) \<and> coal_col s = None then Some col_idx
      else coal_col s)"
  "lignite_col (scan_cell idx col_idx c s) =
     (if matches (\<lambda>k. str_in ''LIGNITE'') (idx, col_idx, c) \<and> lignite_col s = None then Some col_idx
      else lignite_col s)"
  "gas_col (scan_cell idx col_idx c s) =
     (if matches (\<lambda>k. str_in ''GAS'') (idx, col_idx, c) \<and> gas_col s = None then Some col_idx
      else gas_col s)"
  "diesel_col (scan_cell idx col_idx c s) =
     (if matches (\<lambda>k. str_in ''DIESEL'') (idx, col_idx, c) \<and> diesel_col s = None then Some col_idx
      else diesel_col s)"
  "nuclear_col (scan_cell idx col_idx c s) =
     (if matches (\<lambda>k. str_in ''NUCLEAR'') (idx, col_idx, c) \<and> nuclear_col s = None then Some col_idx
      else nuclear_col s)"
  "hydro_col (scan_cell idx col_idx c s) =
     (if matches (\<lambda>k. str_in ''HYDRO'') (idx, col_idx, c) \<and> hydro_col s = None then Some col_idx
      else hydro_col s)"
  "res_col (scan_cell idx col_idx c s) =
     (if matches (\<lambda>k. str_in ''RES'') (idx, col_idx, c) \<and> res_col s = None then Some col_idx
      else res_col s)"
  "total_col (scan_cell idx col_idx c s) =
     (if matches is_total_label (idx, col_idx, c) \<and> total_col s = None then Some col_idx
      else total_col s)"
  by (cases c; simp add: scan_cell_None matches_Some scan_cell_steps Let_def select_other
        select_same select_last)+

lemma locate_headers_scan_order:
  "locate_headers df = fold (\<lambda>v. scan_cell (fst v) (col_of v) (snd (snd v))) (scan_order df) init_scan"
proof -
  have row: "fold (\<lambda>v. scan_cell (fst v) (col_of v) (snd (snd v))) (map (Pair idx) cells) s =
             fold (\<lambda>(col_idx, c). scan_cell idx col_idx c) cells s" for idx cells s
    by (induction cells arbitrary: s) (auto simp add: col_of_def)
  have "fold (\<lambda>v. scan_cell (fst v) (col_of v) (snd (snd v)))
          (concat (map (\<lambda>(idx, r). map (Pair idx) (enumerate 0 r)) rows)) s =
        fold (\<lambda>(idx, r). scan_row idx r) rows s" for rows s
    by (induction rows arbitrary: s) (auto simp add: row scan_row_def)
  then show ?thesis
    by (simp add: locate_headers_def scan_order_def)
qed

lemma fold_last_match:
  assumes step: "\<And>x s. get (f x s) = (if p x then v x else get s)"
  shows "get (fold f xs s) = (case filter p xs of [] \<Rightarrow> get s | m # ms \<Rightarrow> v (last (m # ms)))"
proof -
  have "get (fold f xs s) = (if filter p xs = [] then get s else v (last (filter p xs)))"
  proof (induction xs rule: rev_induct)
    case Nil
    then show ?case by simp
  next
    case (snoc x xs)
    then show ?case by (simp add: step)
  qed
  then show ?thesis
    by (simp split: list.splits)
qed

lemma fold_first_match:
  assumes step: "\<And>x s. get (f x s) = (if p x \<and> get s = None then Some (v x) else get s)"
  shows "get (fold f xs s) =
           (case get s of
              Some y \<Rightarrow> Some y
            | None \<Rightarrow> (case filter p xs of [] \<Rightarrow> None | m # ms \<Rightarrow> Some (v m)))"
proof (induction xs arbitrary: s)
  case Nil
  then show ?case by (simp split: option.splits)
next
  case (Cons x xs)
  show ?case
    by (simp add: Cons.IH step split: option.splits)
qed

lemma first_match_col:
  assumes step: "\<And>idx col_idx c s.
                   get (scan_cell idx col_idx c s) =
                     (if matches label (idx, col_idx, c) \<and> get s = None then Some col_idx else get s)"
    and init: "get init_scan = None"
  shows "get (locate_headers df) =
           (case filter (matches label) (scan_order df) of [] \<Rightarrow> None | m # ms \<Rightarrow> Some (col_of m))"
proof -
  have v: "(fst x, col_of x, snd (snd x)) = x" for x :: visit
    by (cases x) (simp add: col_of_def)
  have "get (fold (\<lambda>v. scan_cell (fst v) (col_of v) (snd (snd v))) (scan_order df) init_scan) =
          (case get init_scan of
              Some y \<Rightarrow> Some y
            | None \<Rightarrow> (case filter (matches label) (scan_order df) of
                         [] \<Rightarrow> None | m # ms \<Rightarrow> Some (col_of m)))"
    by (rule fold_first_match) (simp add: step v)
  then show ?thesis
    by (simp add: locate_headers_scan_order init)
qed

lemma last_match_col:
  assumes step: "\<And>idx col_idx c s.
                   get (scan_cell idx col_idx c s) =
                     (if matches label (idx, col_idx, c) then w col_idx else get s)"
  shows "get (locate_headers df) =
           (case filter (matches label) (scan_order df) of
              [] \<Rightarrow> get init_scan | m # ms \<Rightarrow> w (col_of (last (m # ms))))"
proof -
  have v: "(fst x, col_of x, snd (snd x)) = x" for x :: visit
    by (cases x) (simp add: col_of_def)
  have "get (fold (\<lambda>v. scan_cell (fst v) (col_of v) (snd (snd v))) (scan_order df) init_scan) =
          (case filter (matches label) (scan_order df) of
             [] \<Rightarrow> get init_scan | m # ms \<Rightarrow> (w \<circ> col_of) (last (m # ms)))"
    by (rule fold_last_match) (simp add: step v)
  then show ?thesis
    by (simp add: locate_headers_scan_order split: list.splits)
qed

text \<open>
  Claim C10. Over the cells of the first 15 rows in the order of the scan, the state column
  and the sector column are those of the last cell that matches their label (without a
  match the state column keeps its default 1 and the sector column stays unset until the
  fallback of line 176), while each of the eight fuel and total columns is that of the
  first cell that matches its label.
\<close>

theorem header_match_order:
  "state_col (locate_headers df) =
     (case filter (matches (\<lambda>k. is_state_label)) (scan_order df) of
        [] \<Rightarrow> 1 | m # ms \<Rightarrow> col_of (last (m # ms))) \<and>
   sector_col (locate_headers df) =
     (case filter (matches (\<lambda>k. is_sector_label)) (scan_order df) of
        [] \<Rightarrow> None | m # ms \<Rightarrow> Some (col_of (last (m # ms)))) \<and>
   coal_col (locate_headers df) =
     (case filter (matches (\<lambda>k. is_coal_label)) (scan_order df) of
        [] \<Rightarrow> None | m # ms \<Rightarrow> Some (col_of m)) \<and>
   lignite_col (locate_headers df) =
     (case filter (matches (\<lambda>k. str_in ''LIGNITE'')) (scan_order df) of
        [] \<Rightarrow> None | m # ms \<Rightarrow> Some (col_of m)) \<and>
   gas_col (locate_headers df) =
     (case filter (matches (\<lambda>k. str_in ''GAS'')) (scan_order df) of
        [] \<Rightarrow> None | m # ms \<Rightarrow> Some (col_of m)) \<and>
   diesel_col (locate_headers df) =
     (case filter (matches (\<lambda>k. str_in ''DIESEL'')) (scan_order df) of
        [] \<Rightarrow> None | m # ms \<Rightarrow> Some (col_of m)) \<and>
   nuclear_col (locate_headers df) =
     (case filter (matches (\<lambda>k. str_in ''NUCLEAR'')) (scan_order df) of
        [] \<Rightarrow> None | m # ms \<Rightarrow> Some (col_of m)) \<and>
   hydro_col (locate_headers df) =
     (case filter (matches (\<lambda>k. str_in ''HYDRO'')) (scan_order df) of
        [] \<Rightarrow> None | m # ms \<Rightarrow> Some (col_of m)) \<and>
   res_col (locate_headers df) =
     (case filter (matches (\<lambda>k. str_in ''RES'')) (scan_order df) of
        [] \<Rightarrow> None | m # ms \<Rightarrow> Some (col_of m)) \<and>
   total_col (locate_headers df) =
     (case filter (matches is_total_label) (scan_order df) of
        [] \<Rightarrow> None | m # ms \<Rightarrow> Some (col_of m))"
proof (intro conjI)
  show "state_col (locate_headers df) =
     (case filter (matches (\<lambda>k. is_state_label)) (scan_order df) of
        [] \<Rightarrow> 1 | m # ms \<Rightarrow> col_of (last (m # ms)))"
    using last_match_col [where get = state_col and w = "\<lambda>k. k", OF scan_cell_fields(1)]
    by (simp add: init_scan_def split: list.splits)
  show "sector_col (locate_headers df) =
     (case filter (matches (\<lambda>k. is_sector_label)) (scan_order df) of
        [] \<Rightarrow> None | m # ms \<Rightarrow> Some (col_of (last (m # ms))))"
    using last_match_col [where get = sector_col and w = Some, OF scan_cell_fields(2)]
    by (simp add: init_scan_def split: list.splits)
qed (rule first_match_col, rule scan_cell_fields, simp add: init_scan_def)+



















theorem header_match_order_witness:
  "filter (matches (\<lambda>k. is_state_label))
     (scan_order [[Some ''State'', Some ''Coal'', Some ''STATE '', Some ''Coal (MW)'']]) =
     [(0, 0, Some ''State''), (0, 2, Some ''STATE '')] \<and>
   filter (matches (\<lambda>k. is_coal_label))
     (scan_order [[Some ''State'', Some ''Coal'', Some ''STATE '', Some ''Coal (MW)'']]) =
     [(0, 1, Some ''Coal''), (0, 3, Some ''Coal (MW)'')] \<and>
   state_col (locate_headers [[Some ''State'', Some ''Coal'', Some ''STATE '', Some ''Coal (MW)'']]) = 2 \<and>
   coal_col (locate_headers [[Some ''State'', Some ''Coal'', Some ''STATE '', Some ''Coal (MW)'']]) = Some 1"
proof -
  have s: "filter (matches (\<lambda>k. is_state_label))
     (scan_order [[Some ''State'', Some ''Coal'', Some ''STATE '', Some ''Coal (MW)'']]) =
     [(0, 0, Some ''State''), (0, 2, Some ''STATE '')]"
    by code_simp
  have c: "filter (matches (\<lambda>k. is_coal_label))
     (scan_order [[Some ''State'', Some ''Coal'', Some ''STATE '', Some ''Coal (MW)'']]) =
     [(0, 1, Some ''Coal''), (0, 3, Some ''Coal (MW)'')]"
    by code_simp
  from header_match_order [of "[[Some ''State'', Some ''Coal'', Some ''STATE '', Some ''Coal (MW)'']]"]
  have "state_col (locate_headers [[Some ''State'', Some ''Coal'', Some ''STATE '', Some ''Coal (MW)'']]) = 2"
    and "coal_col (locate_headers [[Some ''State'', Some ''Coal'', Some ''STATE '', Some ''Coal (MW)'']]) = Some 1"
    unfolding s c by (simp_all add: col_of_def)
  with s c show ?thesis by blast
qed

section \<open>Properties of the Row Classifier\<close>

lemma build_record_Sector:
  "build_record pyfloat s date region current_state sector r = Inr rec \<Longrightarrow>
     lookup sector_mapping (upper sector) = Inr (Sector rec)"
  by (auto simp add: build_record_def extract_value_Inr bind_err_def Let_def split: sum.splits)

lemma maharashtra_text:
  "strip ''Maharashtra'' = ''Maharashtra''"
  "\<not> str_in ''Total of'' ''Maharashtra''"
  "\<not> str_in ''TOTAL OF'' (upper ''Maharashtra'')"
  "\<not> isdigit ''Maharashtra''"
  "upper ''Maharashtra'' \<notin> set region_names_upper"
  "\<not> startswith ''Maharashtra'' ''http''"
  by code_simp+

lemma gujarat_text:
  "strip ''Gujarat'' = ''Gujarat''"
  "\<not> str_in ''Total of'' ''Gujarat''"
  "\<not> str_in ''TOTAL OF'' (upper ''Gujarat'')"
  "\<not> isdigit ''Gujarat''"
  "upper ''Gujarat'' \<notin> set region_names_upper"
  "\<not> startswith ''Gujarat'' ''http''"
  by code_simp+

lemma sector_text:
  "strip '''' = ''''"
  "strip ''STATE SECTOR'' = ''STATE SECTOR''"
  "strip ''PVT SECTOR'' = ''PVT SECTOR''"
  "upper ''STATE SECTOR'' = ''STATE SECTOR''"
  "upper ''PVT SECTOR'' = ''PVT SECTOR''"
  "strip ''Total of Maharashtra'' = ''Total of Maharashtra''"
  "str_in ''Total of'' ''Total of Maharashtra''"
  by code_simp+

lemma state_row:
  "classify_row pyfloat (cm\<lparr>state_col := 0\<rparr>) (Suc 0) date region (Some ''Maharashtra'' # None # n1) (cur, acc) =
     Inr (Some ''Maharashtra'', acc)"
  "classify_row pyfloat (cm\<lparr>state_col := 0\<rparr>) (Suc 0) date region (Some ''Gujarat'' # None # n1) (cur, acc) =
     Inr (Some ''Gujarat'', acc)"
  by (simp_all add: classify_row_def cell_text_def iloc_def bind_err_def maharashtra_text
        gujarat_text)

lemma total_row:
  "classify_row pyfloat (cm\<lparr>state_col := 0\<rparr>) (Suc 0) date region
     (Some ''Total of Maharashtra'' # None # n1) (cur, acc) = Inr (cur, acc)"
  by (simp add: classify_row_def cell_text_def iloc_def bind_err_def sector_text)

lemma sector_row:
  "build_record pyfloat (cm\<lparr>state_col := 0\<rparr>) date region ''Maharashtra'' ''STATE SECTOR''
     (Some '''' # Some ''STATE SECTOR'' # n1) = Inr rec \<Longrightarrow>
   classify_row pyfloat (cm\<lparr>state_col := 0\<rparr>) (Suc 0) date region
     (Some '''' # Some ''STATE SECTOR'' # n1) (Some ''Maharashtra'', acc) =
     Inr (Some ''Maharashtra'', acc @ [rec])"
  "build_record pyfloat (cm\<lparr>state_col := 0\<rparr>) date region ''Maharashtra'' ''PVT SECTOR''
     (Some '''' # Some ''PVT SECTOR'' # n1) = Inr rec \<Longrightarrow>
   classify_row pyfloat (cm\<lparr>state_col := 0\<rparr>) (Suc 0) date region
     (Some '''' # Some ''PVT SECTOR'' # n1) (Some ''Maharashtra'', acc) =
     Inr (Some ''Maharashtra'', acc @ [rec])"
  by (simp_all add: classify_row_def cell_text_def iloc_def bind_err_def sector_text truthy_def)

text \<open>
  Claim C6. With the state in column 0 and the sector in column 1, the rows
  \<^verbatim>\<open>["Maharashtra", nan]\<close>, \<^verbatim>\<open>["", "STATE SECTOR", ...]\<close>, \<^verbatim>\<open>["", "PVT SECTOR", ...]\<close>,
  \<^verbatim>\<open>["Total of Maharashtra", nan]\<close> leave the loop with exactly two records, both of the
  state Maharashtra (sectors State and Private), and with Maharashtra as the carried state;
  the row \<^verbatim>\<open>["Gujarat", nan]\<close> that follows adds no record and makes Gujarat the carried
  state. The other cells of the rows, the other columns of the map, the parser, the date
  and the region are arbitrary.
\<close>

theorem row_classifier_example:
  "\<exists>r1 r2.
     classify_rows pyfloat (cm\<lparr>state_col := 0\<rparr>) 1 date region
       [Some ''Maharashtra'' # None # n1, Some '''' # Some ''STATE SECTOR'' # n2,
        Some '''' # Some ''PVT SECTOR'' # n3, Some ''Total of Maharashtra'' # None # n4]
       (None, []) = Inr (Some ''Maharashtra'', [r1, r2]) \<and>
     State r1 = ''Maharashtra'' \<and> Sector r1 = ''State'' \<and>
     State r2 = ''Maharashtra'' \<and> Sector r2 = ''Private'' \<and>
     classify_rows pyfloat (cm\<lparr>state_col := 0\<rparr>) 1 date region
       [Some ''Maharashtra'' # None # n1, Some '''' # Some ''STATE SECTOR'' # n2,
        Some '''' # Some ''PVT SECTOR'' # n3, Some ''Total of Maharashtra'' # None # n4,
        Some ''Gujarat'' # None # n5]
       (None, []) = Inr (Some ''Gujarat'', [r1, r2])"
proof -
  have "upper ''STATE SECTOR'' \<in> set [''STATE SECTOR'', ''PVT SECTOR'', ''CENTRAL SECTOR'']"
    by (simp add: sector_text)
  from build_record_Inr [OF this] obtain r1 where
    r1: "build_record pyfloat (cm\<lparr>state_col := 0\<rparr>) date region ''Maharashtra'' ''STATE SECTOR''
           (Some '''' # Some ''STATE SECTOR'' # n2) = Inr r1"
    by blast
  have "upper ''PVT SECTOR'' \<in> set [''STATE SECTOR'', ''PVT SECTOR'', ''CENTRAL SECTOR'']"
    by (simp add: sector_text)
  from build_record_Inr [OF this] obtain r2 where
    r2: "build_record pyfloat (cm\<lparr>state_col := 0\<rparr>) date region ''Maharashtra'' ''PVT SECTOR''
           (Some '''' # Some ''PVT SECTOR'' # n3) = Inr r2"
    by blast
  have s1: "State r1 = ''Maharashtra''" and s2: "State r2 = ''Maharashtra''"
    using build_record_fields [OF r1] build_record_fields [OF r2] by blast+
  have k1: "Sector r1 = ''State''" and k2: "Sector r2 = ''Private''"
    using build_record_Sector [OF r1] build_record_Sector [OF r2]
    by (simp_all add: sector_text lookup_def sector_mapping_def)
  have four: "classify_rows pyfloat (cm\<lparr>state_col := 0\<rparr>) 1 date region
       [Some ''Maharashtra'' # None # n1, Some '''' # Some ''STATE SECTOR'' # n2,
        Some '''' # Some ''PVT SECTOR'' # n3, Some ''Total of Maharashtra'' # None # n4]
       (None, []) = Inr (Some ''Maharashtra'', [r1, r2])"
    by (simp add: state_row sector_row(1) [OF r1] sector_row(2) [OF r2] total_row)
  have five: "classify_rows pyfloat (cm\<lparr>state_col := 0\<rparr>) 1 date region
       [Some ''Maharashtra'' # None # n1, Some '''' # Some ''STATE SECTOR'' # n2,
        Some '''' # Some ''PVT SECTOR'' # n3, Some ''Total of Maharashtra'' # None # n4,
        Some ''Gujarat'' # None # n5]
       (None, []) = Inr (Some ''Gujarat'', [r1, r2])"
    by (simp add: state_row sector_row(1) [OF r1] sector_row(2) [OF r2] total_row)
  from four five s1 s2 k1 k2 show ?thesis by blast
qed

theorem row_classifier_example_witness:
  "\<exists>r1 r2.
     classify_rows decimal_float (init_scan\<lparr>state_col := 0\<rparr>) 1 None ''Western''
       [Some ''Maharashtra'' # None # [None], Some '''' # Some ''STATE SECTOR'' # [Some ''100''],
        Some '''' # Some ''PVT SECTOR'' # [Some ''50''], Some ''Total of Maharashtra'' # None # [None]]
       (None, []) = Inr (Some ''Maharashtra'', [r1, r2]) \<and>
     State r1 = ''Maharashtra'' \<and> Sector r1 = ''State'' \<and>
     State r2 = ''Maharashtra'' \<and> Sector r2 = ''Private'' \<and>
     classify_rows decimal_float (init_scan\<lparr>state_col := 0\<rparr>) 1 None ''Western''
       [Some ''Maharashtra'' # None # [None], Some '''' # Some ''STATE SECTOR'' # [Some ''100''],
        Some '''' # Some ''PVT SECTOR'' # [Some ''50''], Some ''Total of Maharashtra'' # None # [None],
        Some ''Gujarat'' # None # [None]]
       (None, []) = Inr (Some ''Gujarat'', [r1, r2])"
  by (rule row_classifier_example)

section \<open>Signs of the numeric fields\<close>

lemma extract_value_non_negative:
  assumes zero: "pyfloat ''0'' = Some 0"
    and cells: "\<forall>c \<in> set r. 0 \<le> safe_numeric_convert pyfloat c"
    and v: "extract_value pyfloat r c = Inr x"
  shows "0 \<le> x"
  using v cells
  unfolding extract_value_Inr safe_numeric_convert_zero_value [of pyfloat, OF zero]
  by (auto split: option.splits if_splits)

lemma build_record_non_negative:
  assumes zero: "pyfloat ''0'' = Some 0"
    and cells: "\<forall>c \<in> set r. 0 \<le> safe_numeric_convert pyfloat c"
    and built: "build_record pyfloat s date region current_state sector r = Inr rec"
  shows "non_negative rec"
proof -
  note f = build_record_fields [OF built]
  note nn = extract_value_non_negative [of pyfloat, OF zero cells]
  have c: "0 \<le> Coal rec" "0 \<le> Lignite rec" "0 \<le> Gas rec" "0 \<le> Diesel rec"
    "0 \<le> Nuclear rec" "0 \<le> Hydro rec" "0 \<le> RES rec"
    using f nn by blast+
  from f have t: "Thermal_Total rec = Coal rec + Lignite rec + Gas rec + Diesel rec"
    by blast
  with c have tt: "0 \<le> Thermal_Total rec" by simp
  from f obtain g where g: "extract_value pyfloat r (total_col s) = Inr g"
    and tot: "Total rec = (if g = 0 then Thermal_Total rec + Nuclear rec + Hydro rec + RES rec else g)"
    by blast
  from nn [OF g] tot tt c have "0 \<le> Total rec"
    by (simp split: if_splits)
  with c tt show ?thesis
    by (simp add: non_negative_def)
qed

lemma round2_non_negative: "0 \<le> x \<Longrightarrow> 0 \<le> round2 x"
proof -
  assume "0 \<le> x"
  then have "0 \<le> \<lfloor>x * 100\<rfloor>" by simp
  then have "0 \<le> round_half_even (x * 100)"
    by (simp add: round_half_even_def Let_def)
  then show ?thesis by (simp add: round2_def)
qed

lemma column_sum_non_negative: "\<forall>x \<in> set xs. 0 \<le> f x \<Longrightarrow> 0 \<le> column_sum f xs"
  unfolding column_sum_def by (induction xs) simp_all

lemma group_sum_non_negative:
  assumes "\<forall>rec \<in> set rs. non_negative rec"
  shows "0 \<le> Coal_sum (group_sum rs) \<and> 0 \<le> Lignite_sum (group_sum rs) \<and>
         0 \<le> Gas_sum (group_sum rs) \<and> 0 \<le> Diesel_sum (group_sum rs) \<and>
         0 \<le> Thermal_Total_sum (group_sum rs) \<and> 0 \<le> Nuclear_sum (group_sum rs) \<and>
         0 \<le> Hydro_sum (group_sum rs) \<and> 0 \<le> RES_sum (group_sum rs) \<and>
         0 \<le> Total_sum (group_sum rs)"
  using assms
  by (simp add: group_sum_def non_negative_def round2_non_negative column_sum_non_negative)

lemma all_india_totals_non_negative:
  assumes "\<forall>rec \<in> set monthly_data. non_negative rec"
  shows "\<forall>kt \<in> set (all_india_totals monthly_data).
           0 \<le> Coal_sum (snd kt) \<and> 0 \<le> Lignite_sum (snd kt) \<and>
           0 \<le> Gas_sum (snd kt) \<and> 0 \<le> Diesel_sum (snd kt) \<and>
           0 \<le> Thermal_Total_sum (snd kt) \<and> 0 \<le> Nuclear_sum (snd kt) \<and>
           0 \<le> Hydro_sum (snd kt) \<and> 0 \<le> RES_sum (snd kt) \<and>
           0 \<le> Total_sum (snd kt)"
proof
  fix kt
  assume "kt \<in> set (all_india_totals monthly_data)"
  then obtain k where "snd kt = group_sum (filter (\<lambda>rec. Sector rec = k) monthly_data)"
    by (auto simp add: all_india_totals_def)
  moreover have "\<forall>rec \<in> set (filter (\<lambda>rec. Sector rec = k) monthly_data). non_negative rec"
    using assms by simp
  ultimately show "0 \<le> Coal_sum (snd kt) \<and> 0 \<le> Lignite_sum (snd kt) \<and>
           0 \<le> Gas_sum (snd kt) \<and> 0 \<le> Diesel_sum (snd kt) \<and>
           0 \<le> Thermal_Total_sum (snd kt) \<and> 0 \<le> Nuclear_sum (snd kt) \<and>
           0 \<le> Hydro_sum (snd kt) \<and> 0 \<le> RES_sum (snd kt) \<and>
           0 \<le> Total_sum (snd kt)"
    using group_sum_non_negative by simp
qed

lemma all_india_rows_non_negative:
  assumes tot: "\<forall>kt \<in> set tot.
           0 \<le> Coal_sum (snd kt) \<and> 0 \<le> Lignite_sum (snd kt) \<and>
           0 \<le> Gas_sum (snd kt) \<and> 0 \<le> Diesel_sum (snd kt) \<and>
           0 \<le> Thermal_Total_sum (snd kt) \<and> 0 \<le> Nuclear_sum (snd kt) \<and>
           0 \<le> Hydro_sum (snd kt) \<and> 0 \<le> RES_sum (snd kt) \<and>
           0 \<le> Total_sum (snd kt)"
  shows "\<forall>rec \<in> set (all_india_rows date tot). non_negative rec"
proof -
  have sector: "non_negative (all_india_row date k t)" if "map_of tot k = Some t" for k t
  proof -
    from that have "(k, t) \<in> set tot" by (rule map_of_SomeD)
    with tot show ?thesis
      by (force simp add: non_negative_def all_india_row_def)
  qed
  have overall: "non_negative (all_india_row date ''Total'' (overall_totals tot))"
    using tot
    by (simp add: non_negative_def all_india_row_def overall_totals_def column_sum_non_negative)
  show ?thesis
    using sector overall
    by (auto simp add: all_india_rows_def split: option.splits)
qed

text \<open>
  Claim C5, as amended. The numeric fields of the records of a file are non-negative when
  every cell of its grid converts to a non-negative number, and the roll-up of
  non-negative records adds only non-negative rows. Nothing in the program rejects a
  negative cell. The first hypothesis is Python's \<^verbatim>\<open>float("0") == 0.0\<close>.
\<close>

theorem non_negative_fields:
  assumes zero: "pyfloat ''0'' = Some 0"
    and cells: "\<forall>r \<in> set df. \<forall>c \<in> set r. 0 \<le> safe_numeric_convert pyfloat c"
    and month: "\<forall>rec \<in> set monthly_data. non_negative rec"
  shows "(\<forall>rec \<in> set (process_excel_file pyfloat (Some df) date region). non_negative rec) \<and>
         (\<forall>rec \<in> set (add_all_india monthly_data successful_downloads). non_negative rec)"
proof
  show "\<forall>rec \<in> set (process_excel_file pyfloat (Some df) date region). non_negative rec"
  proof (rule process_excel_file_inv)
    fix df' s r cs sector rec
    assume "Some df = Some df'" and "r \<in> set df'"
      and b: "build_record pyfloat s date region cs sector r = Inr rec"
    with cells have "\<forall>c \<in> set r. 0 \<le> safe_numeric_convert pyfloat c" by simp
    from build_record_non_negative [of pyfloat, OF zero this b] show "non_negative rec" .
  qed
  show "\<forall>rec \<in> set (add_all_india monthly_data successful_downloads). non_negative rec"
    using month all_india_rows_non_negative [OF all_india_totals_non_negative [OF month]]
    by (auto simp add: add_all_india_def)
qed

text \<open>
  Claim C5, counterexample. A sector row whose Gas cell holds -5 gives a record with
  Gas = -5.
\<close>

theorem non_negative_fields_counterexample:
  "process_excel_file decimal_float (Some negative_grid) None ''Northern'' =
     [\<lparr> Date = None, Region = ''Northern'', State = ''Goa'', Sector = ''State'',
        Coal = 100, Lignite = 0, Gas = - 5, Diesel = 0, Thermal_Total = 95, Nuclear = 0,
        Hydro = 0, RES = 0, Total = 95 \<rparr>] \<and>
   \<not> non_negative \<lparr> Date = None, Region = ''Northern'', State = ''Goa'', Sector = ''State'',
        Coal = 100, Lignite = 0, Gas = - 5, Diesel = 0, Thermal_Total = 95, Nuclear = 0,
        Hydro = 0, RES = 0, Total = 95 \<rparr>"
  by code_simp

theorem non_negative_fields_witness:
  "decimal_float ''0'' = Some 0 \<and>
   process_excel_file decimal_float (Some sample_grid) None ''Northern'' = [sample_record] \<and>
   add_all_india [sample_record] 3 =
     [sample_record, sample_all_india ''State'', sample_all_india ''Total''] \<and>
   non_negative sample_record \<and>
   non_negative (sample_all_india ''State'') \<and>
   non_negative (sample_all_india ''Total'')"
proof -
  have zero: "decimal_float ''0'' = Some 0"
    by code_simp
  have cells: "\<forall>r \<in> set sample_grid. \<forall>c \<in> set r. 0 \<le> safe_numeric_convert decimal_float c"
    by code_simp
  have one: "non_negative sample_record"
    using non_negative_fields [where pyfloat = decimal_float and monthly_data = "[]",
        OF zero cells, of None "''Northern''", THEN conjunct1]
    unfolding sample_file by simp
  then have "\<forall>rec \<in> set [sample_record]. non_negative rec"
    by simp
  from non_negative_fields [where pyfloat = decimal_float, OF zero cells this, THEN conjunct2,
      of 3]
  have "non_negative (sample_all_india ''State'')" and "non_negative (sample_all_india ''Total'')"
    unfolding sample_rollup by simp_all
  with zero sample_file sample_rollup one show ?thesis by blast
qed

end
